theory Spec2Isabelle
  imports Main "HOL-Library.Sublist"
begin

section \<open>Bookkeeping store\<close>

text \<open>
  The relational store is reached through Knex. Each table is a list of rows, in
  insertion order, with the columns the routes below read or write. Satoshi amounts are
  integers.
\<close>

record user =
  identity_key :: string
  email :: string

record project =
  id :: nat
  project_uuid :: string
  name :: string
  balance :: int
  network :: string
  private_key :: string
  agent_config :: "string option"
  requires_blockchain_funding :: bool
  frontend_custom_domain :: "string option"
  backend_custom_domain :: "string option"

record admin_row =
  adm_project_id :: nat
  adm_identity_key :: string

record accounting_row =
  acc_project_id :: nat
  acc_type :: string
  amount_sats :: int
  balance_after :: int
  metadata :: string

record log_row =
  log_project_id :: "nat option"
  log_deploy_id :: "nat option"
  message :: string

record deploy =
  dep_id :: nat
  deployment_uuid :: string
  dep_project_id :: nat
  creator_identity_key :: string
  file_path :: "string option"
  service_name :: "string option"

record db =
  users :: "user list"
  projects :: "project list"
  project_admins :: "admin_row list"
  project_accounting :: "accounting_row list"
  logs :: "log_row list"
  deploys :: "deploy list"

text \<open>
  The options a call site passes to \<open>execSync\<close> beyond \<open>stdio\<close> and \<open>encoding\<close>:
  the working directory, and the time after which Node kills the child.
\<close>

record exec_options =
  cwd :: "string option"
  timeout :: "nat option"

text \<open>
  Everything a handler does outside the store, in the order it happens. A file is kept
  by its path and an e-mail by its recipients and subject; what is written into them is
  not tracked.
\<close>

datatype effect =
    Exec string exec_options
  | WriteFile string
  | CopyFile string string
  | EnsureDir string
  | EnableIngress string
  | FundKey string string
  | RefreshAdvertisement
  | SendEmail "string list" string

text \<open>
  A JSON body is an object of string fields. \<open>NoResponse\<close>: the handler's promise
  rejected, or it never settled, and nothing was sent.
\<close>

datatype response =
    Response nat "(string \<times> string) list"
  | NoResponse

subsection \<open>Decimal rendering of numbers in template strings\<close>

fun show_nat :: "nat \<Rightarrow> string" where
  "show_nat n =
     (if n < 10 then [''0123456789'' ! n]
      else show_nat (n div 10) @ [''0123456789'' ! (n mod 10)])"

declare show_nat.simps [simp del]

definition show_int :: "int \<Rightarrow> string" where
  "show_int i = (if i < 0 then CHR ''-'' # show_nat (nat (- i)) else show_nat (nat i))"

section \<open>Project routes\<close>

text \<open>
  \<open>db_fails k\<close>: the \<open>k\<close>-th write statement a handler awaits is rejected by the
  store. The routes open no transaction, so the statements before it stay committed.
  \<open>enable_ingress_result\<close> is what \<open>enableIngress\<close> returns.
\<close>

record route_env =
  db_fails :: "nat \<Rightarrow> bool"
  enable_ingress_result :: bool

definition first_where :: "('a \<Rightarrow> bool) \<Rightarrow> 'a list \<Rightarrow> 'a option" where
  "first_where P xs = List.find P xs"

subsection \<open>Middleware\<close>

definition requireRegisteredUser :: "db \<Rightarrow> string \<Rightarrow> response + user" where
  "requireRegisteredUser d identityKey =
     (case first_where (\<lambda>u. identity_key u = identityKey) (users d) of
        None \<Rightarrow> Inl (Response 401 [(''error'', ''User not registered'')])
      | Some u \<Rightarrow> Inr u)"

definition requireProject :: "db \<Rightarrow> string \<Rightarrow> response + project" where
  "requireProject d projectId =
     (case first_where (\<lambda>p. project_uuid p = projectId) (projects d) of
        None \<Rightarrow> Inl (Response 404 [(''error'', ''Project not found'')])
      | Some p \<Rightarrow> Inr p)"

definition requireProjectAdmin :: "db \<Rightarrow> string \<Rightarrow> project \<Rightarrow> response + unit" where
  "requireProjectAdmin d identityKey p =
     (case first_where (\<lambda>a. adm_project_id a = id p \<and> adm_identity_key a = identityKey)
             (project_admins d) of
        None \<Rightarrow> Inl (Response 403 [(''error'', ''User not admin'')])
      | Some a \<Rightarrow> Inr ())"

text \<open>The chain \<open>requireRegisteredUser, requireProject, requireProjectAdmin\<close>.\<close>

definition admin_route :: "db \<Rightarrow> string \<Rightarrow> string \<Rightarrow> response + (user \<times> project)" where
  "admin_route d identityKey projectId =
     (case requireRegisteredUser d identityKey of
        Inl r \<Rightarrow> Inl r
      | Inr u \<Rightarrow>
          (case requireProject d projectId of
             Inl r \<Rightarrow> Inl r
           | Inr p \<Rightarrow>
               (case requireProjectAdmin d identityKey p of
                  Inl r \<Rightarrow> Inl r
                | Inr _ \<Rightarrow> Inr (u, p))))"

subsection \<open>Statements\<close>

definition update_balance :: "nat \<Rightarrow> int \<Rightarrow> db \<Rightarrow> db" where
  "update_balance pid b d =
     d\<lparr>projects := map (\<lambda>p. if id p = pid then p\<lparr>balance := b\<rparr> else p) (projects d)\<rparr>"

definition insert_accounting :: "accounting_row \<Rightarrow> db \<Rightarrow> db" where
  "insert_accounting r d = d\<lparr>project_accounting := project_accounting d @ [r]\<rparr>"

definition insert_log :: "log_row \<Rightarrow> db \<Rightarrow> db" where
  "insert_log r d = d\<lparr>logs := logs d @ [r]\<rparr>"

definition project_log :: "project \<Rightarrow> string \<Rightarrow> log_row" where
  "project_log p m = \<lparr>log_project_id = Some (id p), log_deploy_id = None, message = m\<rparr>"

definition delete_admin :: "nat \<Rightarrow> string \<Rightarrow> db \<Rightarrow> db" where
  "delete_admin pid k d =
     d\<lparr>project_admins :=
         filter (\<lambda>a. \<not> (adm_project_id a = pid \<and> adm_identity_key a = k)) (project_admins d)\<rparr>"

definition admins_of :: "db \<Rightarrow> nat \<Rightarrow> admin_row list" where
  "admins_of d pid = filter (\<lambda>a. adm_project_id a = pid) (project_admins d)"

definition balance_of :: "db \<Rightarrow> nat \<Rightarrow> int option" where
  "balance_of d pid = map_option balance (first_where (\<lambda>p. id p = pid) (projects d))"

subsection \<open>POST /:projectId/pay\<close>

definition credit_row :: "project \<Rightarrow> int \<Rightarrow> int \<Rightarrow> accounting_row" where
  \<open>credit_row p amount newBalance =
     \<lparr>acc_project_id = id p, acc_type = ''credit'', amount_sats = amount,
      balance_after = newBalance, metadata = ''{"reason":"Admin payment"}''\<rparr>\<close>

definition pay_handler ::
  "route_env \<Rightarrow> project \<Rightarrow> int \<Rightarrow> db \<Rightarrow> response \<times> db \<times> effect list" where
  "pay_handler ctx p amount d =
     (if amount \<le> 0 then
        (Response 400 [(''error'', ''Invalid amount. Must be a positive number.'')], d, [])
      else
        let oldBalance = balance p;
            newBalance = oldBalance + amount
        in if db_fails ctx 1 then (NoResponse, d, [])
        else
          let d1 = update_balance (id p) newBalance d
          in if db_fails ctx 2 then (NoResponse, d1, [])
          else
            let d2 = insert_accounting (credit_row p amount newBalance) d1
            in if db_fails ctx 3 then (NoResponse, d2, [])
            else
              let d3 = insert_log (project_log p
                         (''Balance increased by '' @ show_int amount @
                          ''. New balance: '' @ show_int newBalance)) d2;
                  done = Response 200
                         [(''message'', ''Paid '' @ show_int amount @
                           '' sats. New balance: '' @ show_int newBalance)]
              in if oldBalance < 0 \<and> newBalance \<ge> 0 then
                   let enabled = enable_ingress_result ctx;
                       effs = [EnableIngress (project_uuid p)]
                   in if db_fails ctx 4 then (NoResponse, d3, effs)
                   else if enabled then
                     (done, insert_log (project_log p
                        (''Ingress re-enabled after payment. Balance: '' @
                         show_int newBalance)) d3, effs)
                   else
                     (done, insert_log (project_log p
                        ''Unable to re-enable ingress after payment, project needs to be redeployed.'')
                        d3, effs)
                 else (done, d3, []))"

definition pay ::
  "route_env \<Rightarrow> string \<Rightarrow> string \<Rightarrow> int \<Rightarrow> db \<Rightarrow> response \<times> db \<times> effect list" where
  "pay ctx identityKey projectId amount d =
     (case admin_route d identityKey projectId of
        Inl r \<Rightarrow> (r, d, [])
      | Inr (u, p) \<Rightarrow> pay_handler ctx p amount d)"

subsection \<open>POST /:projectId/addAdmin and /:projectId/removeAdmin\<close>

definition resolveUser :: "db \<Rightarrow> string \<Rightarrow> user option" where
  "resolveUser d identityOrEmail =
     (case first_where (\<lambda>u. identity_key u = identityOrEmail) (users d) of
        Some u \<Rightarrow> Some u
      | None \<Rightarrow>
          if CHR ''@'' \<in> set identityOrEmail
          then first_where (\<lambda>u. email u = identityOrEmail) (users d)
          else None)"

text \<open>
  \<open>project_admins\<close> joined with \<open>users\<close> on the identity key, restricted to one project,
  projected to the e-mail address.
\<close>

definition admin_emails :: "db \<Rightarrow> nat \<Rightarrow> string list" where
  "admin_emails d pid =
     concat (map (\<lambda>a. map email (filter (\<lambda>u. identity_key u = adm_identity_key a) (users d)))
                 (admins_of d pid))"

definition addAdmin_handler ::
  "route_env \<Rightarrow> project \<Rightarrow> string \<Rightarrow> db \<Rightarrow> response \<times> db \<times> effect list" where
  "addAdmin_handler ctx p identityKeyOrEmail d =
     (case resolveUser d identityKeyOrEmail of
        None \<Rightarrow> (Response 400 [(''error'', ''Target user not registered'')], d, [])
      | Some targetUser \<Rightarrow>
          (case first_where (\<lambda>a. adm_project_id a = id p \<and>
                                  adm_identity_key a = identity_key targetUser)
                  (project_admins d) of
             Some existing \<Rightarrow> (Response 200 [(''message'', ''User is already an admin'')], d, [])
           | None \<Rightarrow>
               if db_fails ctx 1 then (NoResponse, d, [])
               else
                 let d1 = d\<lparr>project_admins := project_admins d @
                             [\<lparr>adm_project_id = id p,
                               adm_identity_key = identity_key targetUser\<rparr>]\<rparr>
                 in if db_fails ctx 2 then (NoResponse, d1, [])
                 else
                   let d2 = insert_log (project_log p
                              (''Admin added: '' @ identity_key targetUser)) d1
                   in (Response 200 [(''message'', ''Admin added'')], d2,
                       [SendEmail (admin_emails d2 (id p))
                          (''Admin Added to Project: '' @ name p),
                        SendEmail [email targetUser]
                          (''You have been added as an admin to: '' @ name p)])))"

definition removeAdmin_handler ::
  "route_env \<Rightarrow> project \<Rightarrow> string \<Rightarrow> db \<Rightarrow> response \<times> db \<times> effect list" where
  "removeAdmin_handler ctx p identityKeyOrEmail d =
     (case resolveUser d identityKeyOrEmail of
        None \<Rightarrow> (Response 400 [(''error'', ''Target user not registered'')], d, [])
      | Some targetUser \<Rightarrow>
          let admins = admins_of d (id p)
          in if length admins = 1 \<and>
                adm_identity_key (admins ! 0) = identity_key targetUser
             then (Response 400 [(''error'', ''Cannot remove last admin'')], d, [])
             else
               (case first_where (\<lambda>a. adm_identity_key a = identity_key targetUser) admins of
                  None \<Rightarrow> (Response 400 [(''error'', ''User not an admin'')], d, [])
                | Some existing \<Rightarrow>
                    if db_fails ctx 1 then (NoResponse, d, [])
                    else
                      let d1 = delete_admin (id p) (identity_key targetUser) d
                      in if db_fails ctx 2 then (NoResponse, d1, [])
                      else
                        let d2 = insert_log (project_log p
                                   (''Admin removed: '' @ identity_key targetUser)) d1
                        in (Response 200 [(''message'', ''Admin removed'')], d2,
                            [SendEmail (admin_emails d2 (id p))
                               (''Admin Removed from Project: '' @ name p)])))"

definition addAdmin ::
  "route_env \<Rightarrow> string \<Rightarrow> string \<Rightarrow> string \<Rightarrow> db \<Rightarrow> response \<times> db \<times> effect list" where
  "addAdmin ctx identityKey projectId identityKeyOrEmail d =
     (case admin_route d identityKey projectId of
        Inl r \<Rightarrow> (r, d, [])
      | Inr (u, p) \<Rightarrow> addAdmin_handler ctx p identityKeyOrEmail d)"

definition removeAdmin ::
  "route_env \<Rightarrow> string \<Rightarrow> string \<Rightarrow> string \<Rightarrow> db \<Rightarrow> response \<times> db \<times> effect list" where
  "removeAdmin ctx identityKey projectId identityKeyOrEmail d =
     (case admin_route d identityKey projectId of
        Inl r \<Rightarrow> (r, d, [])
      | Inr (u, p) \<Rightarrow> removeAdmin_handler ctx p identityKeyOrEmail d)"

text \<open>No project lists the same identity key twice among its admins.\<close>

definition admins_distinct :: "db \<Rightarrow> bool" where
  "admins_distinct d =
     distinct (map (\<lambda>a. (adm_project_id a, adm_identity_key a)) (project_admins d))"

section \<open>Agent manifest\<close>

record agent_def =
  agent_type :: string
  agent_image :: "string option"
  dockerfile :: "string option"
  buildContext :: "string option"
  runtime :: "string option"

record resources_def =
  cpu :: "string option"
  memory :: "string option"
  gpu :: "string option"
  tee :: "bool option"
  teeInferenceProxy :: "bool option"

record health_check =
  hc_path :: string
  hc_port :: "nat option"
  intervalSeconds :: "nat option"

record frontend_def =
  directory :: "string option"
  frontend_image :: "string option"

record storage_def =
  enabled :: bool
  storage_size :: "string option"
  mountPath :: "string option"

record databases_def =
  mysql :: "bool option"
  mongo :: "bool option"
  redis :: "bool option"

record deployment_target =
  provider :: string
  projectID :: "string option"
  target_network :: "string option"
  MandalaCloudURL :: "string option"

text \<open>
  \<open>agent\<close> is mandatory in the interface; it is optional here because a selected
  ``service'' that is a member of \<open>Object.prototype\<close> has none.
\<close>

record AgentManifest =
  schema :: string
  schemaVersion :: string
  agent :: "agent_def option"
  env :: "(string \<rightharpoonup> string) option"
  resources :: "resources_def option"
  ports :: "nat list option"
  healthCheck :: "health_check option"
  frontend :: "frontend_def option"
  storage :: "storage_def option"
  databases :: "databases_def option"
  deployments :: "deployment_target list option"

record ServiceDefinition =
  svc_agent :: "agent_def option"
  svc_env :: "(string \<rightharpoonup> string) option"
  svc_resources :: "resources_def option"
  svc_ports :: "nat list option"
  svc_healthCheck :: "health_check option"
  svc_frontend :: "frontend_def option"
  svc_storage :: "storage_def option"
  svc_databases :: "databases_def option"

text \<open>
  The parsed document before its shape is known: the single-service fields, plus the
  \<open>services\<close> map of the multi-service shape.
\<close>

record RawManifest = AgentManifest +
  services :: "(string \<rightharpoonup> ServiceDefinition) option"

text \<open>Truthiness of an optional string: defined and not empty.\<close>

definition truthy :: "string option \<Rightarrow> bool" where
  "truthy s = (case s of None \<Rightarrow> False | Some v \<Rightarrow> v \<noteq> [])"

definition isV2Manifest :: "RawManifest \<Rightarrow> bool" where
  "isV2Manifest m = (schemaVersion m = ''2.0'' \<and> services m \<noteq> None)"

text \<open>
  \<open>rawManifest.services[serviceName]\<close> on an object built by \<open>JSON.parse\<close>: an own
  property if there is one, else what the name inherits from \<open>Object.prototype\<close>.
\<close>

datatype service_lookup = OwnService ServiceDefinition | ProtoMember | NoService

definition object_prototype_keys :: "string list" where
  "object_prototype_keys =
     [''constructor'', ''toString'', ''toLocaleString'', ''valueOf'', ''hasOwnProperty'',
      ''isPrototypeOf'', ''propertyIsEnumerable'', ''__proto__'', ''__defineGetter__'',
      ''__defineSetter__'', ''__lookupGetter__'', ''__lookupSetter__'']"

definition services_lookup :: "(string \<rightharpoonup> ServiceDefinition) \<Rightarrow> string \<Rightarrow> service_lookup" where
  "services_lookup svcs n =
     (case svcs n of
        Some s \<Rightarrow> OwnService s
      | None \<Rightarrow> if n \<in> set object_prototype_keys then ProtoMember else NoService)"

definition spread :: "(string \<rightharpoonup> string) option \<Rightarrow> (string \<rightharpoonup> string) option \<Rightarrow> (string \<rightharpoonup> string)" where
  "spread a b = (case a of None \<Rightarrow> Map.empty | Some x \<Rightarrow> x) ++ (case b of None \<Rightarrow> Map.empty | Some y \<Rightarrow> y)"

definition v2_target :: "deployment_target \<Rightarrow> deployment_target" where
  "v2_target t =
     \<lparr>provider = provider t, projectID = projectID t, target_network = target_network t,
      MandalaCloudURL = MandalaCloudURL t\<rparr>"

definition service_manifest :: "RawManifest \<Rightarrow> service_lookup \<Rightarrow> AgentManifest" where
  "service_manifest rawManifest l =
     (let dflt = \<lparr>svc_agent = None, svc_env = None, svc_resources = None, svc_ports = None,
                  svc_healthCheck = None, svc_frontend = None, svc_storage = None,
                  svc_databases = None\<rparr>;
          svc = (case l of OwnService s \<Rightarrow> s | _ \<Rightarrow> dflt)
      in \<lparr>schema = ''mandala-agent'', schemaVersion = ''1.0'',
          agent = svc_agent svc,
          env = Some (spread (env rawManifest) (svc_env svc)),
          resources = svc_resources svc,
          ports = svc_ports svc,
          healthCheck = svc_healthCheck svc,
          frontend = svc_frontend svc,
          storage = svc_storage svc,
          databases = svc_databases svc,
          deployments = map_option (map v2_target) (deployments rawManifest)\<rparr>)"

section \<open>Upload route\<close>

subsection \<open>Request, environment, control flow\<close>

record upload_request =
  deploymentId :: string
  signature :: string
  query_serviceName :: "string option"
  header_x_mandala_service :: "string option"

text \<open>How a child process started by \<open>execSync\<close> ends: exit status 0 with its output,
  a failure with \<open>stderr\<close>, \<open>stdout\<close> and the error's message, or not at all.\<close>

datatype cmd_outcome =
    Exits_ok string
  | Exits_error string string string
  | Never_exits

subsection \<open>Cluster resources and chart templates\<close>

text \<open>
  A template is a function of the release name and the chart values, as Helm renders
  it; a resource keeps its kind, its name, the autoscaling specification if it is an
  autoscaler, and the names of the volume claims it carries or mounts. A template wrapped
  in \<open>{{- if .Values.flag }}\<close> renders to nothing when the flag is false.
\<close>

datatype kind =
    Deployment
  | HorizontalPodAutoscaler
  | Service
  | Ingress
  | StatefulSet
  | PersistentVolumeClaim

record hpa_spec =
  maxReplicas :: nat
  metric_resource :: string
  averageUtilization :: nat
  metric_target_type :: string
  minReplicas :: nat
  scaleTargetRef :: "kind \<times> string"

record resource =
  res_kind :: kind
  res_name :: string
  res_hpa :: "hpa_spec option"
  res_claims :: "string list"

record valuesObj =
  agentImage :: string
  frontendImage :: "string option"
  ingressHostFrontend :: "string option"
  ingressCustomFrontend :: "string option"
  ingressHostBackend :: string
  ingressCustomBackend :: "string option"
  useMySQL :: bool
  useMongo :: bool
  useRedis :: bool
  mysqlSize :: string
  mongoSize :: string
  redisSize :: string
  agentSize :: string

type_synonym template = "string \<Rightarrow> valuesObj \<Rightarrow> resource list"

subsection \<open>What the handler finds\<close>

text \<open>
  What the handler reads from outside the store: the verdict of the wallet on the URL
  signature, which paths exist in the extracted artifact, what \<open>JSON.parse\<close> makes of
  \<open>agent-manifest.json\<close> (\<open>Inl\<close>: the message of the error it throws), how each shell
  command ends, the process environment, and the balance found for the project key.
  The wallet, the store and the file-system writes are taken to return.

  \<open>helm_templates_present\<close> are the files under \<open>helm/templates\<close> of the build
  directory when step 13 starts, each with what it renders to. The build directory is
  named after the deployment id and is never emptied, and the chart directory lies inside
  the tree the artifact is extracted into: such files come with the tarball, or are what
  an earlier upload to the same deployment id wrote.
\<close>

record upload_env =
  signature_valid :: bool
  fs_exists :: "string \<Rightarrow> bool"
  manifest_json :: "string + RawManifest"
  child :: "string \<Rightarrow> cmd_outcome"
  GPU_ENABLED :: "string option"
  DOCKER_REGISTRY :: "string option"
  PROJECT_DEPLOYMENT_DNS_NAME :: string
  key_balance :: int
  helm_templates_present :: "(string \<times> template) list"

type_synonym world = "db \<times> effect list"

text \<open>
  A stretch of the handler either falls through with a value, sends a response and
  returns, throws into the handler's \<open>catch\<close>, or blocks for ever.
\<close>

datatype 'a step =
    Continue 'a world
  | Reply nat "(string \<times> string) list" world
  | Throws string world
  | Hangs world

fun and_then :: "'a step \<Rightarrow> ('a \<Rightarrow> world \<Rightarrow> 'b step) \<Rightarrow> 'b step" where
  "and_then (Continue a w) f = f a w"
| "and_then (Reply c b w) f = Reply c b w"
| "and_then (Throws m w) f = Throws m w"
| "and_then (Hangs w) f = Hangs w"

fun world_of :: "'a step \<Rightarrow> world" where
  "world_of (Continue a w) = w"
| "world_of (Reply c b w) = w"
| "world_of (Throws m w) = w"
| "world_of (Hangs w) = w"

definition emit :: "effect \<Rightarrow> world \<Rightarrow> world" where
  "emit e w = (fst w, snd w @ [e])"

definition or_else :: "string option \<Rightarrow> string \<Rightarrow> string" where
  "or_else s dflt = (case s of None \<Rightarrow> dflt | Some v \<Rightarrow> if v = [] then dflt else v)"

text \<open>\<open>path.join\<close> of a directory and a relative path; of normalisation only the
  segment \<open>.\<close> is modelled.\<close>

definition path_join :: "string \<Rightarrow> string \<Rightarrow> string" where
  "path_join a b = (if b = ''.'' then a else a @ ''/'' @ b)"

definition logStep :: "deploy \<Rightarrow> string \<Rightarrow> world \<Rightarrow> world" where
  "logStep deploy m w =
     (insert_log \<lparr>log_project_id = Some (dep_project_id deploy),
                  log_deploy_id = Some (dep_id deploy), message = m\<rparr> (fst w), snd w)"

subsection \<open>Running commands\<close>

datatype exec_result =
    Returned string
  | Raised string string string
  | Blocked

text \<open>
  \<open>execSync\<close> blocks until the child has exited. With a \<open>timeout\<close> option Node kills a
  child that is still running when the time is up and throws; without one it waits.
\<close>

definition execSync :: "upload_env \<Rightarrow> string \<Rightarrow> exec_options \<Rightarrow> exec_result" where
  "execSync ctx cmd options =
     (case child ctx cmd of
        Exits_ok output \<Rightarrow> Returned output
      | Exits_error e_stderr e_stdout e_message \<Rightarrow> Raised e_stderr e_stdout e_message
      | Never_exits \<Rightarrow>
          (case timeout options of
             None \<Rightarrow> Blocked
           | Some t \<Rightarrow> Raised [] [] ''spawnSync /bin/sh ETIMEDOUT''))"

definition no_options :: exec_options where
  "no_options = \<lparr>cwd = None, timeout = None\<rparr>"

text \<open>The message of the error \<open>runCmd\<close> throws when the command fails.\<close>

definition command_failed :: "string \<Rightarrow> string \<Rightarrow> string \<Rightarrow> string \<Rightarrow> string" where
  "command_failed cmd e_stderr e_stdout e_message =
     (let stderr = take 3000 e_stderr;
          stdout = take 3000 e_stdout
      in ''Command failed ('' @ cmd @ ''): '' @
         (if stderr \<noteq> [] then stderr else if stdout \<noteq> [] then stdout else e_message))"

definition runCmd :: "upload_env \<Rightarrow> string \<Rightarrow> exec_options \<Rightarrow> world \<Rightarrow> unit step" where
  "runCmd ctx cmd options w =
     (case execSync ctx cmd options of
        Returned output \<Rightarrow> Continue () (emit (Exec cmd options) w)
      | Raised e_stderr e_stdout e_message \<Rightarrow>
          Throws (command_failed cmd e_stderr e_stdout e_message) (emit (Exec cmd options) w)
      | Blocked \<Rightarrow> Hangs (emit (Exec cmd options) w))"

subsection \<open>Steps 1 to 4: deployment record, project, signature, balance\<close>

definition check_request :: "upload_env \<Rightarrow> upload_request \<Rightarrow> world \<Rightarrow> (deploy \<times> project) step" where
  "check_request ctx req w =
     (case first_where (\<lambda>x. deployment_uuid x = deploymentId req) (deploys (fst w)) of
        None \<Rightarrow> Reply 400 [(''error'', ''Invalid deploymentId'')] w
      | Some deploy \<Rightarrow>
          (case first_where (\<lambda>p. id p = dep_project_id deploy) (projects (fst w)) of
             None \<Rightarrow> Reply 400 [(''error'', ''Project not found'')] w
           | Some project \<Rightarrow>
               if \<not> signature_valid ctx then
                 Reply 401 [(''error'', ''Invalid signature'')] w
               else if balance project < 1 then
                 Reply 401 [(''error'',
                   ''Project balance must be at least 1 satoshi to upload a deployment. Current balance: ''
                   @ show_int (balance project))] w
               else Continue (deploy, project) w))"

subsection \<open>Steps 5 to 7: store and extract the artifact\<close>

definition set_file_path :: "nat \<Rightarrow> string \<Rightarrow> db \<Rightarrow> db" where
  "set_file_path did fp d =
     d\<lparr>deploys := map (\<lambda>x. if dep_id x = did then x\<lparr>file_path := Some fp\<rparr> else x) (deploys d)\<rparr>"

definition set_service_name :: "nat \<Rightarrow> string \<Rightarrow> db \<Rightarrow> db" where
  "set_service_name did sn d =
     d\<lparr>deploys := map (\<lambda>x. if dep_id x = did then x\<lparr>service_name := Some sn\<rparr> else x) (deploys d)\<rparr>"

definition store_and_extract ::
  "upload_env \<Rightarrow> upload_request \<Rightarrow> deploy \<Rightarrow> world \<Rightarrow> string step" where
  "store_and_extract ctx req deploy w =
     (let filePath = path_join ''/tmp'' (''artifact_'' @ deploymentId req @ ''.tgz'');
          w1 = emit (WriteFile filePath) w;
          w2 = (set_file_path (dep_id deploy) filePath (fst w1), snd w1);
          w3 = logStep deploy (''File uploaded successfully, saved to '' @ filePath) w2;
          uploadDir = path_join ''/tmp'' (''build_'' @ deploymentId req);
          w4 = emit (EnsureDir uploadDir) w3
      in and_then (runCmd ctx (''tar -xzf '' @ filePath @ '' -C '' @ uploadDir) no_options w4)
           (\<lambda>_ w5. Continue uploadDir (logStep deploy (''Tarball extracted at '' @ uploadDir) w5)))"

subsection \<open>Step 8: read the manifest, check the schema marker\<close>

definition read_manifest :: "upload_env \<Rightarrow> deploy \<Rightarrow> string \<Rightarrow> world \<Rightarrow> RawManifest step" where
  \<open>read_manifest ctx deploy uploadDir w =
     (let manifestPath = path_join uploadDir ''agent-manifest.json''
      in if \<not> fs_exists ctx manifestPath then
           let errMsg = ''agent-manifest.json not found in tarball.''
           in Reply 400 [(''error'', errMsg)] (logStep deploy errMsg w)
         else
           (case manifest_json ctx of
              Inl thrown \<Rightarrow> Throws thrown w
            | Inr rawManifest \<Rightarrow>
                if schema rawManifest \<noteq> ''mandala-agent'' then
                  let errMsg = ''Invalid schema in agent-manifest.json (expected "mandala-agent")''
                  in Reply 400 [(''error'', errMsg)] (logStep deploy errMsg w)
                else Continue rawManifest w))\<close>

subsection \<open>Step 8b: multi-service manifests\<close>

definition requested_service :: "upload_request \<Rightarrow> string option" where
  "requested_service req =
     (if truthy (query_serviceName req) then query_serviceName req
      else header_x_mandala_service req)"

definition selector_message :: string where
  "selector_message =
     ''v2 manifest requires serviceName param identifying which service to deploy''"

definition select_service ::
  "upload_request \<Rightarrow> deploy \<Rightarrow> RawManifest \<Rightarrow> world \<Rightarrow> (AgentManifest \<times> string option) step" where
  "select_service req deploy rawManifest w =
     (if isV2Manifest rawManifest then
        (case services rawManifest of
           None \<Rightarrow> Throws ''Cannot read properties of undefined'' w
         | Some svcs \<Rightarrow>
             let serviceName = requested_service req;
                 found = (if truthy serviceName
                          then services_lookup svcs (or_else serviceName [])
                          else NoService)
             in (case found of
                   NoService \<Rightarrow>
                     let errMsg = selector_message
                     in Reply 400 [(''error'', errMsg)] (logStep deploy errMsg w)
                 | _ \<Rightarrow>
                     Continue (service_manifest rawManifest found, serviceName)
                       (logStep deploy (''v2 manifest detected, deploying service: '' @
                                        or_else serviceName []) w)))
      else Continue (AgentManifest.truncate rawManifest, None) w)"

subsection \<open>Steps 8c, 9, 9b: node capability and deployment target\<close>

definition gpu_requested :: "AgentManifest \<Rightarrow> bool" where
  "gpu_requested manifest = (case resources manifest of None \<Rightarrow> False | Some r \<Rightarrow> truthy (gpu r))"

definition find_deployConfig :: "AgentManifest \<Rightarrow> project \<Rightarrow> deployment_target option" where
  "find_deployConfig manifest project =
     (case deployments manifest of
        None \<Rightarrow> None
      | Some ds \<Rightarrow>
          first_where (\<lambda>d. provider d = ''mandala'' \<and> projectID d = Some (project_uuid project)) ds)"

definition no_target_message :: string where
  "no_target_message =
     ''No matching Mandala deployment config or projectID in agent-manifest.json''"

definition network_mismatch_message :: "string \<Rightarrow> string \<Rightarrow> string" where
  "network_mismatch_message project_net target_net =
     ''Network mismatch: Project is on '' @ project_net @
     '' but deployment config specifies '' @ target_net"

definition check_target ::
  "upload_env \<Rightarrow> deploy \<Rightarrow> project \<Rightarrow> AgentManifest \<Rightarrow> string option \<Rightarrow> world \<Rightarrow> unit step" where
  "check_target ctx deploy project manifest serviceName w =
     (if gpu_requested manifest \<and> GPU_ENABLED ctx \<noteq> Some ''true'' then
        Reply 400 [(''error'', ''This node does not support GPU workloads.'')] w
      else
        let deployConfig = find_deployConfig manifest project
        in if deployConfig = None \<or> \<not> truthy (Option.bind deployConfig projectID) then
             Reply 400 [(''error'', no_target_message)] (logStep deploy no_target_message w)
           else
             let net = Option.bind deployConfig target_network
             in if truthy net \<and> net \<noteq> Some (network project) then
                  let errMsg = network_mismatch_message (network project) (or_else net [])
                  in Reply 400 [(''error'', errMsg)] (logStep deploy errMsg w)
                else
                  Continue ()
                    (if truthy serviceName
                     then (set_service_name (dep_id deploy) (or_else serviceName []) (fst w), snd w)
                     else w))"

subsection \<open>Step 10: build and push the images\<close>

definition is_build :: "effect \<Rightarrow> bool" where
  "is_build e = (case e of Exec cmd options \<Rightarrow> prefix ''buildah '' cmd | _ \<Rightarrow> False)"

definition registryHost :: "upload_env \<Rightarrow> string" where
  "registryHost ctx = or_else (DOCKER_REGISTRY ctx) ''mandala-registry:5000''"

definition write_agent_dockerfile ::
  "upload_env \<Rightarrow> deploy \<Rightarrow> agent_def \<Rightarrow> string \<Rightarrow> string \<Rightarrow> world \<Rightarrow> unit step" where
  \<open>write_agent_dockerfile ctx deploy a uploadDir buildDir w =
     (if agent_type a = ''agidentity'' then
        Continue () (emit (WriteFile (path_join buildDir ''Dockerfile'')) w)
      else if truthy (dockerfile a) then
        let userDockerfilePath = path_join uploadDir (or_else (dockerfile a) [])
        in if \<not> fs_exists ctx userDockerfilePath then
             let errMsg = ''Specified Dockerfile "'' @ or_else (dockerfile a) [] @ ''" not found.''
             in Reply 400 [(''error'', errMsg)] (logStep deploy errMsg w)
           else
             let targetDockerfile = path_join buildDir ''Dockerfile''
             in Continue ()
                  (if userDockerfilePath \<noteq> targetDockerfile
                   then emit (CopyFile userDockerfilePath targetDockerfile) w else w)
      else Continue () (emit (WriteFile (path_join buildDir ''Dockerfile'')) w))\<close>

definition build_agent ::
  "upload_env \<Rightarrow> upload_request \<Rightarrow> deploy \<Rightarrow> project \<Rightarrow> AgentManifest \<Rightarrow> string \<Rightarrow> world
     \<Rightarrow> string step" where
  \<open>build_agent ctx req deploy project manifest uploadDir w =
     (case agent manifest of
        None \<Rightarrow> Throws (''Cannot read properties of undefined (reading '' @ [CHR 0x27] @
                          ''image'' @ [CHR 0x27] @ '')'') w
      | Some a \<Rightarrow>
          if truthy (agent_image a) then
            let agentImage = or_else (agent_image a) []
            in Continue agentImage
                 (logStep deploy (''Using pre-built agent image: '' @ agentImage) w)
          else
            let agentImage = registryHost ctx @ ''/mandala-project-'' @ project_uuid project @
                             ''/agent:'' @ deploymentId req;
                w1 = logStep deploy ''Building agent image...'' w;
                context = or_else (buildContext a) ''.'';
                buildDir = path_join uploadDir context
            in if \<not> fs_exists ctx buildDir then
                 let errMsg = ''Build context directory "'' @ context @ ''" not found in artifact.''
                 in Reply 400 [(''error'', errMsg)] (logStep deploy errMsg w1)
               else
                 and_then (write_agent_dockerfile ctx deploy a uploadDir buildDir w1) (\<lambda>_ w2.
                 and_then (runCmd ctx
                     (''buildah build --storage-driver=vfs --isolation=chroot -t '' @ agentImage @
                      '' '' @ buildDir) no_options w2) (\<lambda>_ w3.
                 and_then (runCmd ctx
                     (''buildah push --tls-verify=false --storage-driver=vfs '' @ agentImage)
                     no_options
                     (logStep deploy (''Agent image built: '' @ agentImage) w3)) (\<lambda>_ w4.
                 Continue agentImage
                   (logStep deploy (''Agent image pushed: '' @ agentImage) w4)))))\<close>

definition build_frontend ::
  "upload_env \<Rightarrow> upload_request \<Rightarrow> deploy \<Rightarrow> project \<Rightarrow> AgentManifest \<Rightarrow> string \<Rightarrow> world
     \<Rightarrow> string option step" where
  "build_frontend ctx req deploy project manifest uploadDir w =
     (case frontend manifest of
        None \<Rightarrow> Continue None w
      | Some f \<Rightarrow>
          if truthy (frontend_image f) then
            let frontendImage = or_else (frontend_image f) []
            in Continue (Some frontendImage)
                 (logStep deploy (''Using pre-built frontend image: '' @ frontendImage) w)
          else
            let frontendImage = registryHost ctx @ ''/mandala-project-'' @ project_uuid project @
                                ''/frontend:'' @ deploymentId req;
                w1 = logStep deploy ''Building frontend image...'' w;
                frontendDir = path_join uploadDir (or_else (directory f) ''frontend'')
            in if \<not> fs_exists ctx frontendDir then
                 let errMsg = ''Frontend directory not found but frontend config specified.''
                 in Reply 400 [(''error'', errMsg)] (logStep deploy errMsg w1)
               else
                 let w2 = emit (WriteFile (path_join frontendDir ''Dockerfile''))
                            (emit (WriteFile (path_join frontendDir ''nginx.conf'')) w1);
                     inDir = \<lparr>cwd = Some frontendDir, timeout = None\<rparr>
                 in and_then (runCmd ctx
                       (''buildah build --storage-driver=vfs --isolation=chroot -t '' @
                        frontendImage @ '' .'') inDir w2) (\<lambda>_ w3.
                    and_then (runCmd ctx
                       (''buildah push --storage-driver=vfs --tls-verify=false '' @ frontendImage)
                       inDir
                       (logStep deploy (''Frontend image built: '' @ frontendImage) w3)) (\<lambda>_ w4.
                    Continue (Some frontendImage)
                      (logStep deploy (''Frontend image pushed: '' @ frontendImage) w4))))"

subsection \<open>Step 12: fund the project key\<close>

text \<open>
  Step 11 merges the manifest's environment with the project's \<open>agent_config\<close>; the
  result only feeds the \<open>env\<close> entries of the Deployment template and is left out.
  A failure of \<open>fundKey\<close> is caught and logged by the handler.
\<close>

definition fund_key :: "upload_env \<Rightarrow> project \<Rightarrow> world \<Rightarrow> unit step" where
  "fund_key ctx project w =
     Continue ()
       (if requires_blockchain_funding project \<and> key_balance ctx < 100
        then emit (FundKey (private_key project) (network project)) w
        else w)"

subsection \<open>Step 13: the chart\<close>

definition plain :: "kind \<Rightarrow> string \<Rightarrow> resource" where
  "plain k n = \<lparr>res_kind = k, res_name = n, res_hpa = None, res_claims = []\<rparr>"

definition flag :: "bool option \<Rightarrow> bool" where
  "flag b = (case b of None \<Rightarrow> False | Some v \<Rightarrow> v)"

definition useStorage :: "AgentManifest \<Rightarrow> bool" where
  "useStorage manifest = (case storage manifest of None \<Rightarrow> False | Some s \<Rightarrow> enabled s)"

definition make_values :: "upload_env \<Rightarrow> project \<Rightarrow> AgentManifest \<Rightarrow> string \<Rightarrow> string option \<Rightarrow> valuesObj" where
  "make_values ctx project manifest agentImg frontendImg =
     (let ingressHost = project_uuid project @ ''.'' @ PROJECT_DEPLOYMENT_DNS_NAME ctx
      in \<lparr>agentImage = agentImg,
          frontendImage = frontendImg,
          ingressHostFrontend =
            (if frontend manifest \<noteq> None then Some (''frontend.'' @ ingressHost) else None),
          ingressCustomFrontend = frontend_custom_domain project,
          ingressHostBackend = ''agent.'' @ ingressHost,
          ingressCustomBackend = backend_custom_domain project,
          useMySQL = flag (Option.bind (databases manifest) mysql),
          useMongo = flag (Option.bind (databases manifest) mongo),
          useRedis = flag (Option.bind (databases manifest) redis),
          mysqlSize = ''20Gi'',
          mongoSize = ''20Gi'',
          redisSize = ''5Gi'',
          agentSize = or_else (Option.bind (storage manifest) storage_size) ''10Gi''\<rparr>)"

definition deployment_yaml :: "AgentManifest \<Rightarrow> template" where
  "deployment_yaml manifest fullname v =
     [\<lparr>res_kind = Deployment, res_name = fullname @ ''-deployment'', res_hpa = None,
       res_claims = (if useStorage manifest then [fullname @ ''-agent-pvc''] else [])\<rparr>]"

definition hpaMaxReplicas :: "AgentManifest \<Rightarrow> nat" where
  "hpaMaxReplicas manifest = (if gpu_requested manifest then 1 else 10)"

definition hpa_yaml :: "AgentManifest \<Rightarrow> template" where
  "hpa_yaml manifest fullname v =
     [\<lparr>res_kind = HorizontalPodAutoscaler, res_name = fullname @ ''-deployment'',
       res_hpa = Some \<lparr>maxReplicas = hpaMaxReplicas manifest,
                       metric_resource = ''cpu'',
                       averageUtilization = 50,
                       metric_target_type = ''Utilization'',
                       minReplicas = 1,
                       scaleTargetRef = (Deployment, fullname @ ''-deployment'')\<rparr>,
       res_claims = []\<rparr>]"

definition service_yaml :: template where
  "service_yaml fullname v = [plain Service (fullname @ ''-service'')]"

definition ingress_yaml :: template where
  "ingress_yaml fullname v = [plain Ingress (fullname @ ''-ingress'')]"

definition www_ingress_yaml :: template where
  "www_ingress_yaml fullname v = [plain Ingress (fullname @ ''-www'')]"

definition mysql_statefulset_yaml :: template where
  "mysql_statefulset_yaml fullname v =
     (if useMySQL v then
        [\<lparr>res_kind = StatefulSet, res_name = ''mysql'', res_hpa = None,
          res_claims = [''mysql-data'']\<rparr>,
         plain Service ''mysql-headless'',
         plain Service ''mysql'']
      else [])"

definition mongo_statefulset_yaml :: template where
  "mongo_statefulset_yaml fullname v =
     (if useMongo v then
        [\<lparr>res_kind = StatefulSet, res_name = ''mongo'', res_hpa = None,
          res_claims = [''mongo-data'']\<rparr>,
         plain Service ''mongo-headless'',
         plain Service ''mongo'']
      else [])"

definition redis_yaml :: template where
  "redis_yaml fullname v =
     (if useRedis v then [plain Deployment ''redis'', plain Service ''redis''] else [])"

definition agent_pvc_yaml :: template where
  "agent_pvc_yaml fullname v = [plain PersistentVolumeClaim (fullname @ ''-agent-pvc'')]"

text \<open>The files written under \<open>templates/\<close>, in the order the handler writes them.\<close>

definition chart_templates :: "project \<Rightarrow> AgentManifest \<Rightarrow> (string \<times> template) list" where
  "chart_templates project manifest =
     [(''deployment.yaml'', deployment_yaml manifest),
      (''hpa.yaml'', hpa_yaml manifest),
      (''service.yaml'', service_yaml),
      (''ingress.yaml'', ingress_yaml)] @
     (if truthy (frontend_custom_domain project)
      then [(''www-ingress.yaml'', www_ingress_yaml)] else []) @
     [(''mysql-statefulset.yaml'', mysql_statefulset_yaml),
      (''mongo-statefulset.yaml'', mongo_statefulset_yaml),
      (''redis.yaml'', redis_yaml)] @
     (if useStorage manifest then [(''agent-pvc.yaml'', agent_pvc_yaml)] else [])"

definition helm_template :: "string \<Rightarrow> valuesObj \<Rightarrow> (string \<times> template) list \<Rightarrow> resource list" where
  "helm_template release v chart = concat (map (\<lambda>(file, t). t release v) chart)"

definition helmReleaseName :: "project \<Rightarrow> string" where
  "helmReleaseName project = ''mandala-project-'' @ take 24 (project_uuid project)"

definition namespace :: "project \<Rightarrow> string" where
  "namespace project = ''mandala-project-'' @ project_uuid project"

text \<open>What the templates written by this run render to.\<close>

definition generated_topology ::
  "upload_env \<Rightarrow> project \<Rightarrow> AgentManifest \<Rightarrow> string \<Rightarrow> string option \<Rightarrow> resource list" where
  "generated_topology ctx project manifest agentImg frontendImg =
     helm_template (helmReleaseName project)
       (make_values ctx project manifest agentImg frontendImg)
       (chart_templates project manifest)"

text \<open>
  The files under \<open>helm/templates\<close> once step 13 has run: \<open>ensureDirSync\<close> creates the
  directory if it is missing and removes nothing, and \<open>writeFileSync\<close> replaces a file of
  the same name; a file this run does not write stays as it was.
\<close>

definition chart_directory ::
  "upload_env \<Rightarrow> project \<Rightarrow> AgentManifest \<Rightarrow> (string \<times> template) list" where
  "chart_directory ctx project manifest =
     filter (\<lambda>(file, t). file \<notin> set (map fst (chart_templates project manifest)))
       (helm_templates_present ctx) @
     chart_templates project manifest"

text \<open>
  What \<open>helm upgrade --install\<close> applies: it is pointed at the chart directory and renders
  every template in it.
\<close>

definition applied_topology ::
  "upload_env \<Rightarrow> project \<Rightarrow> AgentManifest \<Rightarrow> string \<Rightarrow> string option \<Rightarrow> resource list" where
  "applied_topology ctx project manifest agentImg frontendImg =
     helm_template (helmReleaseName project)
       (make_values ctx project manifest agentImg frontendImg)
       (chart_directory ctx project manifest)"

definition generate_chart ::
  "upload_env \<Rightarrow> deploy \<Rightarrow> project \<Rightarrow> AgentManifest \<Rightarrow> string \<Rightarrow> string \<Rightarrow> string option
     \<Rightarrow> world \<Rightarrow> valuesObj step" where
  "generate_chart ctx deploy project manifest uploadDir agentImg frontendImg w =
     (let helmDir = path_join uploadDir ''helm'';
          v = make_values ctx project manifest agentImg frontendImg;
          templates = path_join helmDir ''templates'';
          w1 = emit (WriteFile (path_join helmDir ''values.yaml''))
                 (emit (WriteFile (path_join helmDir ''Chart.yaml''))
                    (emit (EnsureDir helmDir) w));
          w2 = emit (WriteFile (path_join templates ''_helpers.tpl''))
                 (emit (EnsureDir templates) w1);
          w3 = fold (\<lambda>(file, t). emit (WriteFile (path_join templates file)))
                 (chart_templates project manifest) w2
      in Continue v (logStep deploy (''Helm chart generated at '' @ helmDir) w3))"

subsection \<open>Steps 14 and 15: apply the release, wait for the rollout\<close>

definition helm_cmd :: "project \<Rightarrow> string \<Rightarrow> string" where
  "helm_cmd project helmDir =
     ''helm upgrade --install '' @ helmReleaseName project @ '' '' @ helmDir @
     '' --namespace '' @ namespace project @ '' --atomic --create-namespace''"

definition rollout_cmd :: "project \<Rightarrow> string" where
  "rollout_cmd project =
     ''kubectl rollout status deployment/'' @ helmReleaseName project @ ''-deployment -n '' @
     namespace project"

definition deploy_release ::
  "upload_env \<Rightarrow> upload_request \<Rightarrow> deploy \<Rightarrow> project \<Rightarrow> string \<Rightarrow> world \<Rightarrow> unit step" where
  "deploy_release ctx req deploy project uploadDir w =
     and_then (runCmd ctx (helm_cmd project (path_join uploadDir ''helm'')) no_options w) (\<lambda>_ w1.
     and_then (runCmd ctx (rollout_cmd project) no_options
                 (logStep deploy (''Helm release '' @ helmReleaseName project @
                    '' deployed for project '' @ project_uuid project) w1)) (\<lambda>_ w2.
     Continue ()
       (emit RefreshAdvertisement
          (logStep deploy (''Project '' @ project_uuid project @ '', release '' @
             deploymentId req @ '' rolled out successfully.'') w2))))"

definition respond :: "deploy \<Rightarrow> project \<Rightarrow> AgentManifest \<Rightarrow> valuesObj \<Rightarrow> world \<Rightarrow> unit step" where
  "respond deploy project manifest v w =
     (let w1 = (if frontend manifest \<noteq> None
                then logStep deploy (''Frontend URL: '' @ or_else (ingressHostFrontend v) []) w
                else w);
          w2 = logStep deploy (''Agent URL: '' @ ingressHostBackend v) w1
      in Reply 200
           ([(''message'', ''Deployment completed successfully''),
             (''agentUrl'', ingressHostBackend v)] @
            (if frontend manifest \<noteq> None
             then [(''frontendUrl'', or_else (ingressHostFrontend v) [])] else []) @
            (if frontend manifest \<noteq> None \<and> truthy (frontend_custom_domain project)
             then [(''frontendCustomDomain'', or_else (frontend_custom_domain project) [])]
             else []) @
            (if truthy (backend_custom_domain project)
             then [(''agentCustomDomain'', or_else (backend_custom_domain project) [])]
             else []))
           w2)"

subsection \<open>The handler\<close>

text \<open>The \<open>try\<close> block, cut into the stretches the sections above describe.\<close>

definition receive ::
  "upload_env \<Rightarrow> upload_request \<Rightarrow> world \<Rightarrow> (deploy \<times> project \<times> string) step" where
  "receive ctx req w0 =
     and_then (check_request ctx req w0) (\<lambda>(deploy, project) w1.
     and_then (store_and_extract ctx req deploy w1) (\<lambda>uploadDir w2.
     Continue (deploy, project, uploadDir) w2))"

definition load_manifest ::
  "upload_env \<Rightarrow> upload_request \<Rightarrow> deploy \<Rightarrow> string \<Rightarrow> world
     \<Rightarrow> (AgentManifest \<times> string option) step" where
  "load_manifest ctx req deploy uploadDir w =
     and_then (read_manifest ctx deploy uploadDir w) (\<lambda>rawManifest w1.
     select_service req deploy rawManifest w1)"

definition build_images ::
  "upload_env \<Rightarrow> upload_request \<Rightarrow> deploy \<Rightarrow> project \<Rightarrow> AgentManifest \<Rightarrow> string \<Rightarrow> world
     \<Rightarrow> (string \<times> string option) step" where
  "build_images ctx req deploy project manifest uploadDir w =
     and_then (build_agent ctx req deploy project manifest uploadDir w) (\<lambda>agentImg w1.
     and_then (build_frontend ctx req deploy project manifest uploadDir w1) (\<lambda>frontendImg w2.
     Continue (agentImg, frontendImg) w2))"

definition apply_release ::
  "upload_env \<Rightarrow> upload_request \<Rightarrow> deploy \<Rightarrow> project \<Rightarrow> AgentManifest \<Rightarrow> string \<Rightarrow>
     string \<Rightarrow> string option \<Rightarrow> world \<Rightarrow> unit step" where
  "apply_release ctx req deploy project manifest uploadDir agentImg frontendImg w =
     and_then (fund_key ctx project w) (\<lambda>_ w1.
     and_then (generate_chart ctx deploy project manifest uploadDir agentImg frontendImg w1)
       (\<lambda>v w2.
     and_then (deploy_release ctx req deploy project uploadDir w2) (\<lambda>_ w3.
     respond deploy project manifest v w3)))"

definition upload_try :: "upload_env \<Rightarrow> upload_request \<Rightarrow> world \<Rightarrow> unit step" where
  "upload_try ctx req w0 =
     and_then (receive ctx req w0) (\<lambda>(deploy, project, uploadDir) w1.
     and_then (load_manifest ctx req deploy uploadDir w1) (\<lambda>(manifest, serviceName) w2.
     and_then (check_target ctx deploy project manifest serviceName w2) (\<lambda>_ w3.
     and_then (build_images ctx req deploy project manifest uploadDir w3)
       (\<lambda>(agentImg, frontendImg) w4.
     apply_release ctx req deploy project manifest uploadDir agentImg frontendImg w4))))"

text \<open>
  The \<open>catch\<close> block. \<open>deploy\<close> and \<open>project\<close> are the rows the \<open>try\<close> block read first;
  nothing in it changes them before an error can be thrown.
\<close>

definition on_error ::
  "upload_request \<Rightarrow> db \<Rightarrow> string \<Rightarrow> world \<Rightarrow> response \<times> db \<times> effect list" where
  "on_error req d0 error_message w =
     (let msg = ''Error handling upload: '' @ error_message;
          deploy = first_where (\<lambda>x. deployment_uuid x = deploymentId req) (deploys d0);
          project = Option.bind deploy
                      (\<lambda>x. first_where (\<lambda>p. id p = dep_project_id x) (projects d0))
      in case (deploy, project) of
           (Some dp, Some pr) \<Rightarrow>
             (Response 500 [(''error'', msg)],
              insert_log \<lparr>log_project_id = Some (id pr), log_deploy_id = Some (dep_id dp),
                          message = msg\<rparr> (fst w),
              snd w @ [SendEmail (admin_emails (fst w) (id pr))
                         (''Deployment Failure for Project: '' @ name pr)])
         | _ \<Rightarrow> (Response 500 [(''error'', msg)], fst w, snd w))"

definition upload :: "upload_env \<Rightarrow> upload_request \<Rightarrow> db \<Rightarrow> response \<times> db \<times> effect list" where
  "upload ctx req d =
     (case upload_try ctx req (d, []) of
        Continue u w \<Rightarrow> (NoResponse, fst w, snd w)
      | Reply code body w \<Rightarrow> (Response code body, fst w, snd w)
      | Throws error_message w \<Rightarrow> on_error req d error_message w
      | Hangs w \<Rightarrow> (NoResponse, fst w, snd w))"

section \<open>Concrete inputs\<close>

definition example_user :: user where
  "example_user = \<lparr>identity_key = ''02ab'', email = ''ops@example.org''\<rparr>"

definition example_project :: project where
  "example_project =
     \<lparr>id = 1, project_uuid = ''c0ffee'', name = ''demo'', balance = -1, network = ''mainnet'',
      private_key = ''00'', agent_config = Some ''{}'', requires_blockchain_funding = False,
      frontend_custom_domain = None, backend_custom_domain = None\<rparr>"

definition example_db :: db where
  "example_db =
     \<lparr>users = [example_user], projects = [example_project],
      project_admins = [\<lparr>adm_project_id = 1, adm_identity_key = ''02ab''\<rparr>],
      project_accounting = [], logs = [], deploys = []\<rparr>"

definition reliable :: route_env where
  "reliable = \<lparr>db_fails = (\<lambda>k. False), enable_ingress_result = True\<rparr>"

definition ledger_insert_rejected :: route_env where
  "ledger_insert_rejected = \<lparr>db_fails = (\<lambda>k. k = 2), enable_ingress_result = True\<rparr>"

definition funded_project :: project where
  "funded_project = example_project\<lparr>balance := 1000\<rparr>"

definition example_deploy :: deploy where
  "example_deploy =
     \<lparr>dep_id = 7, deployment_uuid = ''d1'', dep_project_id = 1,
      creator_identity_key = ''02ab'', file_path = None, service_name = None\<rparr>"

definition upload_db :: db where
  "upload_db = example_db\<lparr>projects := [funded_project], deploys := [example_deploy]\<rparr>"

definition example_request :: upload_request where
  "example_request =
     \<lparr>deploymentId = ''d1'', signature = ''3045'', query_serviceName = None,
      header_x_mandala_service = None\<rparr>"

definition example_agent :: agent_def where
  "example_agent =
     \<lparr>agent_type = ''custom'', agent_image = None, dockerfile = None, buildContext = None,
      runtime = Some ''node''\<rparr>"

definition mainnet_target :: deployment_target where
  "mainnet_target =
     \<lparr>provider = ''mandala'', projectID = Some ''c0ffee'', target_network = Some ''mainnet'',
      MandalaCloudURL = None\<rparr>"

definition testnet_target :: deployment_target where
  "testnet_target = mainnet_target\<lparr>target_network := Some ''testnet''\<rparr>"

text \<open>A single-service manifest: ports [8080], a health check, nothing else declared.\<close>

definition example_manifest :: RawManifest where
  "example_manifest =
     \<lparr>schema = ''mandala-agent'', schemaVersion = ''1.0'', agent = Some example_agent,
      env = None, resources = None, ports = Some [8080],
      healthCheck = Some \<lparr>hc_path = ''/health'', hc_port = None, intervalSeconds = Some 30\<rparr>,
      frontend = None, storage = None, databases = None,
      deployments = Some [mainnet_target], services = None\<rparr>"

definition gpu_manifest :: RawManifest where
  "gpu_manifest =
     example_manifest\<lparr>resources :=
       Some \<lparr>cpu = None, memory = None, gpu = Some ''1'', tee = None,
             teeInferenceProxy = None\<rparr>\<rparr>"

definition two_target_manifest :: RawManifest where
  "two_target_manifest =
     example_manifest\<lparr>deployments := Some [testnet_target, mainnet_target]\<rparr>"

definition example_service :: ServiceDefinition where
  "example_service =
     \<lparr>svc_agent = Some example_agent, svc_env = None, svc_resources = None,
      svc_ports = Some [8080], svc_healthCheck = None, svc_frontend = None,
      svc_storage = None, svc_databases = None\<rparr>"

definition v2_manifest :: RawManifest where
  "v2_manifest =
     example_manifest\<lparr>schemaVersion := ''2.0'', agent := None,
       services := Some [''web'' \<mapsto> example_service]\<rparr>"

text \<open>
  A GPU-capable node on which every command succeeds, every path exists and the build
  directory is new.
\<close>

definition node :: "RawManifest \<Rightarrow> upload_env" where
  "node m =
     \<lparr>signature_valid = True, fs_exists = (\<lambda>path. True), manifest_json = Inr m,
      child = (\<lambda>cmd. Exits_ok []), GPU_ENABLED = Some ''true'', DOCKER_REGISTRY = None,
      PROJECT_DEPLOYMENT_DNS_NAME = ''example.org'', key_balance = 0,
      helm_templates_present = []\<rparr>"

text \<open>
  The same deployment uploaded twice: first with storage declared, then with
  \<open>example_manifest\<close>, which declares none. The second upload finds the templates and
  the store the first one left.
\<close>

definition storage_manifest :: RawManifest where
  "storage_manifest =
     example_manifest\<lparr>storage :=
       Some \<lparr>enabled = True, storage_size = None, mountPath = Some ''/data''\<rparr>\<rparr>"

definition second_upload :: upload_env where
  "second_upload =
     (node example_manifest)\<lparr>helm_templates_present :=
        chart_directory (node storage_manifest) funded_project
          (AgentManifest.truncate storage_manifest)\<rparr>"

definition after_first_upload :: db where
  "after_first_upload = fst (snd (upload (node storage_manifest) example_request upload_db))"

definition agent_build_cmd :: string where
  "agent_build_cmd =
     ''buildah build --storage-driver=vfs --isolation=chroot -t '' @
     ''mandala-registry:5000/mandala-project-c0ffee/agent:d1 /tmp/build_d1''"

definition build_fails :: upload_env where
  "build_fails =
     (node example_manifest)\<lparr>child := (\<lambda>cmd.
        if cmd = agent_build_cmd
        then Exits_error ''error: COPY secrets.env: no such file'' [] ''Command failed''
        else Exits_ok [])\<rparr>"

definition rollout_never_ends :: upload_env where
  "rollout_never_ends =
     (node example_manifest)\<lparr>child := (\<lambda>cmd.
        if cmd = rollout_cmd funded_project then Never_exits else Exits_ok [])\<rparr>"

section \<open>Vocabulary of the proofs\<close>

text \<open>A stretch of the handler is quiet when it starts no image build and no push.\<close>

definition quiet :: "world \<Rightarrow> 'a step \<Rightarrow> bool" where
  "quiet w s = (filter is_build (snd (world_of s)) = filter is_build (snd w))"


text \<open>
  \<open>ran_ok\<close>: every command started so far has exited with status 0. A stretch is settled
  when that holds of what it leaves behind, or it threw because its last command failed,
  or it blocks on its last command.
\<close>

definition ran_ok :: "upload_env \<Rightarrow> effect list \<Rightarrow> bool" where
  "ran_ok ctx es = (\<forall>cmd opts. Exec cmd opts \<in> set es \<longrightarrow> (\<exists>out. child ctx cmd = Exits_ok out))"

definition settled :: "upload_env \<Rightarrow> 'a step \<Rightarrow> bool" where
  "settled ctx s =
     (case s of
        Continue a w \<Rightarrow> ran_ok ctx (snd w)
      | Reply c b w \<Rightarrow> ran_ok ctx (snd w)
      | Throws m w \<Rightarrow>
          ran_ok ctx (snd w) \<or>
          (\<exists>pre cmd opts e out msg.
             snd w = pre @ [Exec cmd opts] \<and> ran_ok ctx pre \<and>
             child ctx cmd = Exits_error e out msg \<and> m = command_failed cmd e out msg)
      | Hangs w \<Rightarrow>
          (\<exists>pre cmd opts.
             snd w = pre @ [Exec cmd opts] \<and> ran_ok ctx pre \<and> child ctx cmd = Never_exits))"

section \<open>Properties of the project routes\<close>

lemma admin_route_project:
  assumes "admin_route d k pid = Inr (u, p)"
  shows "p \<in> set (projects d)"
  using assms
  by (auto simp: admin_route_def requireRegisteredUser_def requireProject_def
      requireProjectAdmin_def first_where_def find_Some_iff split: option.splits sum.splits)

lemma example_admin_route:
  "admin_route example_db ''02ab'' ''c0ffee'' = Inr (example_user, example_project)"
  by (simp add: admin_route_def requireRegisteredUser_def requireProject_def
      requireProjectAdmin_def first_where_def example_db_def example_user_def
      example_project_def)

lemma stmt_fields [simp]:
  "projects (insert_log r d) = projects d"
  "project_accounting (insert_log r d) = project_accounting d"
  "project_admins (insert_log r d) = project_admins d"
  "projects (insert_accounting a d) = projects d"
  "project_accounting (insert_accounting a d) = project_accounting d @ [a]"
  "project_accounting (update_balance i b d) = project_accounting d"
  "project_admins (delete_admin i k d) =
     filter (\<lambda>a. \<not> (adm_project_id a = i \<and> adm_identity_key a = k)) (project_admins d)"
  by (simp_all add: insert_log_def insert_accounting_def update_balance_def delete_admin_def)

subsection \<open>Payments\<close>

lemma find_map_update:
  "List.find (\<lambda>p. id p = i) (map (\<lambda>p. if id p = i then p\<lparr>balance := b\<rparr> else p) ps)
   = map_option (\<lambda>p. p\<lparr>balance := b\<rparr>) (List.find (\<lambda>p. id p = i) ps)"
  by (induction ps) auto

lemma balance_of_update:
  assumes "p \<in> set (projects d)"
  shows "balance_of (update_balance (id p) b d) (id p) = Some b"
proof -
  from assms obtain q where "List.find (\<lambda>x. id x = id p) (projects d) = Some q"
    by (cases "List.find (\<lambda>x. id x = id p) (projects d)") (auto simp: find_None_iff)
  then show ?thesis
    by (simp add: balance_of_def update_balance_def first_where_def find_map_update)
qed

lemma pay_handler_ledger:
  "project_accounting (fst (snd (pay_handler ctx p amount d))) =
     (if 0 < amount \<and> \<not> db_fails ctx 1 \<and> \<not> db_fails ctx 2
      then project_accounting d @ [credit_row p amount (balance p + amount)]
      else project_accounting d)"
  by (simp add: pay_handler_def Let_def)

lemma pay_handler_projects:
  "projects (fst (snd (pay_handler ctx p amount d))) =
     (if 0 < amount \<and> \<not> db_fails ctx 1
      then projects (update_balance (id p) (balance p + amount) d)
      else projects d)"
  by (simp add: pay_handler_def Let_def)

lemma pay_handler_effects:
  assumes "0 < amount" and "\<forall>k. \<not> db_fails ctx k"
  shows "snd (snd (pay_handler ctx p amount d)) =
           (if balance p < 0 \<and> 0 \<le> balance p + amount
            then [EnableIngress (project_uuid p)] else [])"
  using assms by (simp add: pay_handler_def Let_def)

lemma pay_handler_balance:
  assumes "p \<in> set (projects d)" and "0 < amount" and "\<not> db_fails ctx 1"
  shows "balance_of (fst (snd (pay_handler ctx p amount d))) (id p) = Some (balance p + amount)"
  using balance_of_update[OF assms(1), of "balance p + amount"] assms(2,3)
  by (simp add: balance_of_def pay_handler_projects)

text \<open>
  C1, as stated, fails: the pay handler awaits the balance update and the ledger insert as
  two statements with no transaction around them. When the store rejects the insert, the
  balance of project 1 has gone from -1 to 4 and the ledger is what it was.
\<close>

theorem pay_not_atomic_counterexample:
  "balance_of example_db 1 = Some (- 1) \<and>
   balance_of (fst (snd (pay ledger_insert_rejected ''02ab'' ''c0ffee'' 5 example_db))) 1 = Some 4 \<and>
   project_accounting (fst (snd (pay ledger_insert_rejected ''02ab'' ''c0ffee'' 5 example_db))) =
     project_accounting example_db"
proof -
  have "pay ledger_insert_rejected ''02ab'' ''c0ffee'' 5 example_db =
        pay_handler ledger_insert_rejected example_project 5 example_db"
    by (simp add: pay_def example_admin_route)
  then show ?thesis
    by (simp add: pay_handler_def ledger_insert_rejected_def Let_def
        balance_of_def update_balance_def first_where_def example_db_def example_project_def)
qed

text \<open>
  C1, amended: the payment credit updates the balance and then, as the next statement and
  outside any transaction, appends the paired ledger entry (type credit, the amount, the
  resulting balance). When both statements succeed the store holds the new balance and
  that entry; and the ledger changes only by that one appended entry, and only after the
  balance has been updated.
\<close>

theorem pay_update_then_ledger:
  assumes "admin_route d identityKey projectId = Inr (u, p)"
  shows "case pay ctx identityKey projectId amount d of (r, d', effs) \<Rightarrow>
           (0 < amount \<and> \<not> db_fails ctx 1 \<and> \<not> db_fails ctx 2 \<longrightarrow>
              balance_of d' (id p) = Some (balance p + amount) \<and>
              project_accounting d' =
                project_accounting d @ [credit_row p amount (balance p + amount)]) \<and>
           (project_accounting d' \<noteq> project_accounting d \<longrightarrow>
              balance_of d' (id p) = Some (balance p + amount) \<and>
              project_accounting d' =
                project_accounting d @ [credit_row p amount (balance p + amount)])"
proof -
  let ?res = "pay_handler ctx p amount d"
  have pay: "pay ctx identityKey projectId amount d = ?res"
    using assms by (simp add: pay_def)
  have mem: "p \<in> set (projects d)"
    by (rule admin_route_project[OF assms])
  have b: "0 < amount \<and> \<not> db_fails ctx 1 \<Longrightarrow>
           balance_of (fst (snd ?res)) (id p) = Some (balance p + amount)"
    using pay_handler_balance[OF mem] by simp
  show ?thesis
    unfolding pay using b by (auto simp: case_prod_unfold pay_handler_ledger)
qed

theorem pay_update_then_ledger_witness:
  "balance_of (fst (snd (pay reliable ''02ab'' ''c0ffee'' 5 example_db))) 1 = Some 4 \<and>
   project_accounting (fst (snd (pay reliable ''02ab'' ''c0ffee'' 5 example_db))) =
     [credit_row example_project 5 4]"
proof -
  let ?d' = "fst (snd (pay reliable ''02ab'' ''c0ffee'' 5 example_db))"
  have ok: "(0::int) < 5 \<and> \<not> db_fails reliable 1 \<and> \<not> db_fails reliable 2"
    by (simp add: reliable_def)
  have empty: "project_accounting example_db = []"
    by (simp add: example_db_def)
  have p: "id example_project = 1" "balance example_project + 5 = 4"
    by (simp_all add: example_project_def)
  from pay_update_then_ledger[OF example_admin_route, where ctx = reliable and amount = 5]
  have "(0::int) < 5 \<and> \<not> db_fails reliable 1 \<and> \<not> db_fails reliable 2 \<longrightarrow>
          balance_of ?d' (id example_project) = Some (balance example_project + 5) \<and>
          project_accounting ?d' = project_accounting example_db @
            [credit_row example_project 5 (balance example_project + 5)]"
    by (simp only: case_prod_unfold) blast
  with ok show ?thesis
    by (simp only: p empty append_Nil) blast
qed

text \<open>
  C2: a payment of a positive amount, with every statement accepted by the store, leaves
  the balance increased by the amount, appends exactly one ledger entry (type credit, the
  amount, the resulting balance), and its only action outside the store is one ingress
  re-enable when the balance goes from below zero to zero or more (none otherwise): no
  command is run, so nothing is rebuilt or redeployed. From balance -1, a credit of 5 gives
  balance 4, the entry (credit, 5, 4) and one ingress re-enable.
\<close>

theorem pay_credit_reenables_ingress_only:
  assumes "admin_route d identityKey projectId = Inr (u, p)"
    and "0 < amount"
    and "\<forall>k. \<not> db_fails ctx k"
  shows \<open>case pay ctx identityKey projectId amount d of (r, d', effs) \<Rightarrow>
           balance_of d' (id p) = Some (balance p + amount) \<and>
           project_accounting d' = project_accounting d @
             [\<lparr>acc_project_id = id p, acc_type = ''credit'', amount_sats = amount,
               balance_after = balance p + amount,
               metadata = ''{"reason":"Admin payment"}''\<rparr>] \<and>
           effs = (if balance p < 0 \<and> 0 \<le> balance p + amount
                   then [EnableIngress (project_uuid p)] else [])\<close>
proof -
  let ?res = "pay_handler ctx p amount d"
  have ok: "\<not> db_fails ctx 1" "\<not> db_fails ctx 2"
    using assms(3) by simp_all
  have pay: "pay ctx identityKey projectId amount d = ?res"
    using assms(1) by (simp add: pay_def)
  have b: "balance_of (fst (snd ?res)) (id p) = Some (balance p + amount)"
    by (rule pay_handler_balance[OF admin_route_project[OF assms(1)] assms(2) ok(1)])
  have l: "project_accounting (fst (snd ?res)) =
             project_accounting d @ [credit_row p amount (balance p + amount)]"
    using assms(2) ok by (simp add: pay_handler_ledger)
  have e: "snd (snd ?res) = (if balance p < 0 \<and> 0 \<le> balance p + amount
                   then [EnableIngress (project_uuid p)] else [])"
    by (rule pay_handler_effects[OF assms(2,3)])
  show ?thesis
    unfolding pay using b l e by (simp add: case_prod_unfold credit_row_def)
qed

theorem pay_credit_reenables_ingress_only_witness:
  \<open>balance example_project = - 1 \<and>
   (case pay reliable ''02ab'' ''c0ffee'' 5 example_db of (r, d', effs) \<Rightarrow>
     balance_of d' 1 = Some 4 \<and>
     project_accounting d' = project_accounting example_db @
       [\<lparr>acc_project_id = 1, acc_type = ''credit'', amount_sats = 5, balance_after = 4,
         metadata = ''{"reason":"Admin payment"}''\<rparr>] \<and>
     effs = [EnableIngress ''c0ffee''])\<close>
  using pay_credit_reenables_ingress_only[where d = example_db and identityKey = "''02ab''"
      and projectId = "''c0ffee''" and u = example_user and p = example_project
      and ctx = reliable and amount = 5] example_admin_route
  by (simp add: case_prod_unfold example_project_def reliable_def)

subsection \<open>Project admins\<close>

lemma removeAdmin_handler_admins:
  "project_admins (fst (snd (removeAdmin_handler ctx p target d))) = project_admins d \<or>
   (\<exists>t. resolveUser d target = Some t \<and>
        \<not> (length (admins_of d (id p)) = 1 \<and>
           adm_identity_key (admins_of d (id p) ! 0) = identity_key t) \<and>
        project_admins (fst (snd (removeAdmin_handler ctx p target d))) =
          filter (\<lambda>a. \<not> (adm_project_id a = id p \<and> adm_identity_key a = identity_key t))
            (project_admins d))"
  by (auto simp: removeAdmin_handler_def Let_def split: option.splits)

lemma distinct_pairs_filter:
  assumes "distinct (map (\<lambda>a. (adm_project_id a, adm_identity_key a)) xs)"
  shows "distinct (map adm_identity_key (filter (\<lambda>a. adm_project_id a = i) xs))"
  using assms
proof (induction xs)
  case Nil
  then show ?case by simp
next
  case (Cons a xs)
  then show ?case by (auto simp: image_iff)
qed

lemma survivor:
  assumes "distinct (map adm_identity_key as)" and "as \<noteq> []"
    and "\<not> (length as = 1 \<and> adm_identity_key (as ! 0) = k)"
  shows "filter (\<lambda>a. adm_identity_key a \<noteq> k) as \<noteq> []"
proof (cases as)
  case Nil
  with assms(2) show ?thesis by simp
next
  case (Cons a rest)
  show ?thesis
  proof (cases "adm_identity_key a = k")
    case False
    with Cons show ?thesis by simp
  next
    case True
    with assms(3) Cons obtain b rest' where r: "rest = b # rest'"
      by (cases rest) auto
    from assms(1) Cons r True have "adm_identity_key b \<noteq> k" by auto
    with Cons r show ?thesis by simp
  qed
qed

lemma admins_of_filter:
  "filter (\<lambda>a. adm_project_id a = q)
     (filter (\<lambda>a. \<not> (adm_project_id a = i \<and> adm_identity_key a = k)) xs) =
   (if q = i then filter (\<lambda>a. adm_identity_key a \<noteq> k) (filter (\<lambda>a. adm_project_id a = i) xs)
    else filter (\<lambda>a. adm_project_id a = q) xs)"
  by (induction xs) auto

lemma admins_of_after_delete:
  assumes "project_admins d' =
             filter (\<lambda>a. \<not> (adm_project_id a = i \<and> adm_identity_key a = k)) (project_admins d)"
  shows "admins_of d' q =
           (if q = i then filter (\<lambda>a. adm_identity_key a \<noteq> k) (admins_of d i)
            else admins_of d q)"
  unfolding admins_of_def assms by (rule admins_of_filter)

text \<open>
  The routes that change the admins of a project keep the admin lists free of duplicates,
  so a store built through them satisfies the hypothesis of the next theorem.
\<close>

lemma removeAdmin_keeps_distinct:
  assumes "admins_distinct d"
  shows "admins_distinct (fst (snd (removeAdmin ctx identityKey projectId target d)))"
proof (cases "admin_route d identityKey projectId")
  case (Inl r)
  with assms show ?thesis by (simp add: removeAdmin_def)
next
  case (Inr up)
  obtain u p where "up = (u, p)" by (cases up)
  with Inr have eq: "removeAdmin ctx identityKey projectId target d =
      removeAdmin_handler ctx p target d"
    by (simp add: removeAdmin_def)
  from removeAdmin_handler_admins[of ctx p target d] assms show ?thesis
    unfolding eq admins_distinct_def by (auto simp: distinct_map_filter)
qed

lemma addAdmin_keeps_distinct:
  assumes "admins_distinct d"
  shows "admins_distinct (fst (snd (addAdmin ctx identityKey projectId target d)))"
proof (cases "admin_route d identityKey projectId")
  case (Inl r)
  with assms show ?thesis by (simp add: addAdmin_def)
next
  case (Inr up)
  obtain u p where "up = (u, p)" by (cases up)
  with Inr have eq: "addAdmin ctx identityKey projectId target d = addAdmin_handler ctx p target d"
    by (simp add: addAdmin_def)
  show ?thesis
    unfolding eq using assms
    by (auto simp: addAdmin_handler_def admins_distinct_def Let_def first_where_def
        find_None_iff insert_log_def split: option.splits)
qed

text \<open>
  C10: in a store where no project lists an identity key twice among its admins, the
  remove-admin route leaves every project that has an admin with at least one admin; and
  when the target is the only admin of the project the route answers 400
  ``Cannot remove last admin'' and changes nothing.
\<close>

theorem removeAdmin_keeps_an_admin:
  assumes "admins_distinct d"
  shows "(admins_of d q \<noteq> [] \<longrightarrow>
            admins_of (fst (snd (removeAdmin ctx identityKey projectId target d))) q \<noteq> []) \<and>
         (\<forall>u p t. admin_route d identityKey projectId = Inr (u, p) \<and>
                  resolveUser d target = Some t \<and>
                  map adm_identity_key (admins_of d (id p)) = [identity_key t] \<longrightarrow>
            removeAdmin ctx identityKey projectId target d =
              (Response 400 [(''error'', ''Cannot remove last admin'')], d, []))"
proof (intro conjI impI allI)
  assume nonempty: "admins_of d q \<noteq> []"
  show "admins_of (fst (snd (removeAdmin ctx identityKey projectId target d))) q \<noteq> []"
  proof (cases "admin_route d identityKey projectId")
    case (Inl r)
    with nonempty show ?thesis by (simp add: removeAdmin_def)
  next
    case (Inr up)
    obtain u p where up: "up = (u, p)" by (cases up)
    let ?d' = "fst (snd (removeAdmin_handler ctx p target d))"
    have eq: "removeAdmin ctx identityKey projectId target d = removeAdmin_handler ctx p target d"
      using Inr up by (simp add: removeAdmin_def)
    from removeAdmin_handler_admins[of ctx p target d]
    show ?thesis
    proof
      assume "project_admins ?d' = project_admins d"
      with nonempty show ?thesis by (simp add: eq admins_of_def)
    next
      assume "\<exists>t. resolveUser d target = Some t \<and>
        \<not> (length (admins_of d (id p)) = 1 \<and>
           adm_identity_key (admins_of d (id p) ! 0) = identity_key t) \<and>
        project_admins ?d' =
          filter (\<lambda>a. \<not> (adm_project_id a = id p \<and> adm_identity_key a = identity_key t))
            (project_admins d)"
      then obtain t :: user where
        guard: "\<not> (length (admins_of d (id p)) = 1 \<and>
                   adm_identity_key (admins_of d (id p) ! 0) = identity_key t)"
        and del: "project_admins ?d' =
          filter (\<lambda>a. \<not> (adm_project_id a = id p \<and> adm_identity_key a = identity_key t))
            (project_admins d)"
        by blast
      show ?thesis
      proof (cases "q = id p")
        case False
        with nonempty show ?thesis by (simp add: eq admins_of_after_delete[OF del])
      next
        case True
        have dist: "distinct (map adm_identity_key (admins_of d (id p)))"
          using assms unfolding admins_distinct_def admins_of_def by (rule distinct_pairs_filter)
        have "filter (\<lambda>a. adm_identity_key a \<noteq> identity_key t) (admins_of d (id p)) \<noteq> []"
          using dist nonempty guard unfolding True by (rule survivor)
        with True show ?thesis by (simp add: eq admins_of_after_delete[OF del])
      qed
    qed
  qed
next
  fix u p t
  assume h: "admin_route d identityKey projectId = Inr (u, p) \<and>
             resolveUser d target = Some t \<and>
             map adm_identity_key (admins_of d (id p)) = [identity_key t]"
  then obtain a where a: "admins_of d (id p) = [a]" "adm_identity_key a = identity_key t"
    by (cases "admins_of d (id p)") auto
  with h show "removeAdmin ctx identityKey projectId target d =
              (Response 400 [(''error'', ''Cannot remove last admin'')], d, [])"
    by (simp add: removeAdmin_def removeAdmin_handler_def Let_def)
qed

theorem removeAdmin_keeps_an_admin_witness:
  "admins_distinct example_db \<and> admins_of example_db 1 \<noteq> [] \<and>
   removeAdmin reliable ''02ab'' ''c0ffee'' ''02ab'' example_db =
     (Response 400 [(''error'', ''Cannot remove last admin'')], example_db, []) \<and>
   admins_of (fst (snd (removeAdmin reliable ''02ab'' ''c0ffee'' ''02ab'' example_db))) 1 \<noteq> []"
proof -
  have d: "admins_distinct example_db"
    by (simp add: admins_distinct_def example_db_def)
  have r: "resolveUser example_db ''02ab'' = Some example_user"
    by (simp add: resolveUser_def first_where_def example_db_def example_user_def)
  have m: "map adm_identity_key (admins_of example_db (id example_project)) =
           [identity_key example_user]"
    by (simp add: admins_of_def example_db_def example_project_def example_user_def)
  have n: "admins_of example_db 1 \<noteq> []"
    by (simp add: admins_of_def example_db_def)
  from removeAdmin_keeps_an_admin[OF d, where q = 1 and ctx = reliable
      and identityKey = "''02ab''" and projectId = "''c0ffee''" and target = "''02ab''"]
    example_admin_route r m n d
  show ?thesis by simp
qed

section \<open>Properties of the upload route\<close>

subsection \<open>Stretches that build nothing\<close>

lemma world_simps [simp]:
  "snd (emit e w) = snd w @ [e]"
  "fst (emit e w) = fst w"
  "snd (logStep dp m w) = snd w"
  by (simp_all add: emit_def logStep_def)

lemma quiet_and_then:
  assumes "quiet w s" and "\<And>a w'. s = Continue a w' \<Longrightarrow> quiet w' (f a w')"
  shows "quiet w (and_then s f)"
  using assms by (cases s) (auto simp: quiet_def)

lemma quiet_Continue [simp]: "quiet w (Continue a w') = (filter is_build (snd w') = filter is_build (snd w))"
  by (simp add: quiet_def)

lemma quiet_Reply [simp]: "quiet w (Reply c b w') = (filter is_build (snd w') = filter is_build (snd w))"
  by (simp add: quiet_def)

lemma quiet_Throws [simp]: "quiet w (Throws m w') = (filter is_build (snd w') = filter is_build (snd w))"
  by (simp add: quiet_def)

lemma quiet_check_request: "quiet w (check_request ctx req w)"
  by (simp add: check_request_def split: option.splits)

lemma quiet_runCmd:
  assumes "\<not> prefix ''buildah '' cmd"
  shows "quiet w (runCmd ctx cmd opts w)"
  using assms by (simp add: runCmd_def quiet_def is_build_def split: exec_result.splits)

lemma quiet_store_and_extract: "quiet w (store_and_extract ctx req dp w)"
proof -
  let ?w4 = "emit (EnsureDir (path_join ''/tmp'' (''build_'' @ deploymentId req)))
    (logStep dp (''File uploaded successfully, saved to '' @ path_join ''/tmp'' (''artifact_'' @ deploymentId req @ ''.tgz''))
      (set_file_path (dep_id dp) (path_join ''/tmp'' (''artifact_'' @ deploymentId req @ ''.tgz''))
         (fst (emit (WriteFile (path_join ''/tmp'' (''artifact_'' @ deploymentId req @ ''.tgz''))) w)),
       snd (emit (WriteFile (path_join ''/tmp'' (''artifact_'' @ deploymentId req @ ''.tgz''))) w)))"
  have q: "filter is_build (snd ?w4) = filter is_build (snd w)"
    by (simp add: is_build_def)
  have "quiet ?w4 (store_and_extract ctx req dp w)"
    unfolding store_and_extract_def Let_def
    by (rule quiet_and_then, rule quiet_runCmd) simp_all
  then show ?thesis using q by (simp add: quiet_def)
qed

lemma quiet_receive: "quiet w (receive ctx req w)"
  unfolding receive_def
  by (rule quiet_and_then[OF quiet_check_request])
     (auto simp: check_request_def split: option.splits if_splits
           intro!: quiet_and_then quiet_store_and_extract)

lemma quiet_read_manifest: "quiet w (read_manifest ctx dp dir w)"
  by (simp add: read_manifest_def Let_def split: sum.splits)

lemma quiet_select_service: "quiet w (select_service req dp raw w)"
  by (simp add: select_service_def Let_def split: option.splits service_lookup.splits)

lemma quiet_load_manifest: "quiet w (load_manifest ctx req dp dir w)"
  unfolding load_manifest_def
  by (rule quiet_and_then[OF quiet_read_manifest])
     (auto simp: read_manifest_def Let_def quiet_select_service split: sum.splits if_splits)

lemma quiet_check_target: "quiet w (check_target ctx dp pr m sn w)"
  by (simp add: check_target_def Let_def)


subsection \<open>The balance precondition\<close>

text \<open>
  C9: when the deployment record and its project are found and the project's balance is
  below 1 satoshi, the upload is answered with status 401 (as it is when the signature is
  invalid), the store is unchanged, and nothing happens outside it: no artifact is written,
  no manifest read, no image built or pushed, nothing applied to the cluster.
\<close>

theorem upload_rejects_unfunded:
  assumes "first_where (\<lambda>x. deployment_uuid x = deploymentId req) (deploys d) = Some dp"
    and "first_where (\<lambda>p. id p = dep_project_id dp) (projects d) = Some pr"
    and "balance pr < 1"
  shows "upload ctx req d =
           (Response 401
              [(''error'',
                if signature_valid ctx
                then ''Project balance must be at least 1 satoshi to upload a deployment. Current balance: ''
                     @ show_int (balance pr)
                else ''Invalid signature'')], d, [])"
  using assms
  by (simp add: upload_def upload_try_def receive_def check_request_def)

theorem upload_rejects_unfunded_witness:
  "balance example_project < 1 \<and>
   upload (node example_manifest) example_request (upload_db\<lparr>projects := [example_project]\<rparr>) =
     (Response 401
        [(''error'',
          ''Project balance must be at least 1 satoshi to upload a deployment. Current balance: -1'')],
      upload_db\<lparr>projects := [example_project]\<rparr>, [])"
proof -
  have dp: "first_where (\<lambda>x. deployment_uuid x = deploymentId example_request)
              (deploys (upload_db\<lparr>projects := [example_project]\<rparr>)) = Some example_deploy"
    by (simp add: first_where_def upload_db_def example_request_def example_deploy_def)
  have pr: "first_where (\<lambda>p. id p = dep_project_id example_deploy)
              (projects (upload_db\<lparr>projects := [example_project]\<rparr>)) = Some example_project"
    by (simp add: first_where_def example_deploy_def example_project_def)
  have b: "balance example_project < 1"
    by (simp add: example_project_def)
  have s: "show_int (balance example_project) = ''-1''"
    by (simp add: example_project_def show_int_def show_nat.simps)
  have v: "signature_valid (node example_manifest)"
    by (simp add: node_def)
  from upload_rejects_unfunded[OF dp pr b, of "node example_manifest"] b s v
  show ?thesis by simp
qed

subsection \<open>The applied topology\<close>

lemma helm_template_Cons [simp]:
  "helm_template rel v ((file, t) # ts) = t rel v @ helm_template rel v ts"
  "helm_template rel v [] = []"
  "helm_template rel v (xs @ ys) = helm_template rel v xs @ helm_template rel v ys"
  by (simp_all add: helm_template_def)

lemma release_name_not_database [simp]:
  "helmReleaseName pr @ sfx \<noteq> ''mysql''"
  "helmReleaseName pr @ sfx \<noteq> ''mongo''"
  "helmReleaseName pr @ sfx \<noteq> ''redis''"
  "helmReleaseName pr @ sfx \<noteq> ''mysql-headless''"
  "helmReleaseName pr @ sfx \<noteq> ''mongo-headless''"
  by (simp_all add: helmReleaseName_def)

lemma chart_directory_fresh:
  assumes "set (map fst (helm_templates_present ctx)) \<subseteq> set (map fst (chart_templates pr m))"
  shows "chart_directory ctx pr m = chart_templates pr m"
proof -
  have "filter (\<lambda>(file, t). file \<notin> set (map fst (chart_templates pr m)))
          (helm_templates_present ctx) = []"
    using assms by (force simp: filter_empty_conv)
  then show ?thesis by (simp add: chart_directory_def)
qed

lemma generated_is_applied:
  "set (generated_topology ctx pr m agentImg frontendImg) \<subseteq>
   set (applied_topology ctx pr m agentImg frontendImg)"
  by (simp add: generated_topology_def applied_topology_def chart_directory_def)

text \<open>
  In a chart directory that holds no template besides those this run writes, a manifest
  whose mysql, mongo and redis flags are all false (or absent) and that declares no
  storage is applied as the Deployment, the HorizontalPodAutoscaler, the Service and the
  Ingress of the release (and a second Ingress for the \<open>www\<close> alias when the project has a
  custom frontend domain), with no StatefulSet, no PersistentVolumeClaim, no resource of
  the MySQL, MongoDB or Redis templates and no volume claim on any resource.
\<close>

lemma fresh_directory_topology:
  assumes "\<not> flag (Option.bind (databases m) mysql)"
    and "\<not> flag (Option.bind (databases m) mongo)"
    and "\<not> flag (Option.bind (databases m) redis)"
    and "storage m = None"
    and "set (map fst (helm_templates_present ctx)) \<subseteq> set (map fst (chart_templates pr m))"
  shows "set (map res_kind (applied_topology ctx pr m agentImg frontendImg)) =
           {Deployment, Service, HorizontalPodAutoscaler, Ingress} \<and>
         map (\<lambda>r. (res_kind r, res_name r)) (applied_topology ctx pr m agentImg frontendImg) =
           [(Deployment, helmReleaseName pr @ ''-deployment''),
            (HorizontalPodAutoscaler, helmReleaseName pr @ ''-deployment''),
            (Service, helmReleaseName pr @ ''-service''),
            (Ingress, helmReleaseName pr @ ''-ingress'')] @
           (if truthy (frontend_custom_domain pr)
            then [(Ingress, helmReleaseName pr @ ''-www'')] else []) \<and>
         (\<forall>r \<in> set (applied_topology ctx pr m agentImg frontendImg).
            res_kind r \<noteq> StatefulSet \<and> res_kind r \<noteq> PersistentVolumeClaim \<and>
            res_claims r = [] \<and>
            res_name r \<notin> {''mysql'', ''mongo'', ''redis'', ''mysql-headless'', ''mongo-headless''})"
  using assms(1-4) unfolding applied_topology_def chart_directory_fresh[OF assms(5)]
  by (auto simp: chart_templates_def make_values_def Let_def useStorage_def
      deployment_yaml_def hpa_yaml_def service_yaml_def ingress_yaml_def www_ingress_yaml_def
      mysql_statefulset_yaml_def mongo_statefulset_yaml_def redis_yaml_def plain_def)

text \<open>
  C4: the templates this run writes hold exactly one autoscaler, and Helm applies it
  whatever else the chart directory holds; it targets the release's Deployment on CPU
  utilization with at least 1 replica and at most 10, or at most 1 when the manifest
  requests a GPU. On a node with \<open>GPU_ENABLED=true\<close> a manifest that requests a GPU and
  has a matching deployment target passes the capability and target checks.
\<close>

theorem autoscaler_bounds:
  "filter (\<lambda>r. res_kind r = HorizontalPodAutoscaler)
     (generated_topology ctx pr m agentImg frontendImg) =
     [\<lparr>res_kind = HorizontalPodAutoscaler,
       res_name = helmReleaseName pr @ ''-deployment'',
       res_hpa = Some \<lparr>maxReplicas = (if gpu_requested m then 1 else 10),
                       metric_resource = ''cpu'',
                       averageUtilization = 50,
                       metric_target_type = ''Utilization'',
                       minReplicas = 1,
                       scaleTargetRef = (Deployment, helmReleaseName pr @ ''-deployment'')\<rparr>,
       res_claims = []\<rparr>] \<and>
   \<lparr>res_kind = HorizontalPodAutoscaler,
     res_name = helmReleaseName pr @ ''-deployment'',
     res_hpa = Some \<lparr>maxReplicas = (if gpu_requested m then 1 else 10),
                     metric_resource = ''cpu'',
                     averageUtilization = 50,
                     metric_target_type = ''Utilization'',
                     minReplicas = 1,
                     scaleTargetRef = (Deployment, helmReleaseName pr @ ''-deployment'')\<rparr>,
     res_claims = []\<rparr> \<in> set (applied_topology ctx pr m agentImg frontendImg) \<and>
   (gpu_requested m \<and> GPU_ENABLED ctx = Some ''true'' \<and>
    find_deployConfig m pr = Some t \<and> project_uuid pr \<noteq> [] \<and>
    (\<not> truthy (target_network t) \<or> target_network t = Some (network pr)) \<longrightarrow>
      check_target ctx dp pr m sn w =
        Continue ()
          (if truthy sn then (set_service_name (dep_id dp) (or_else sn []) (fst w), snd w)
           else w))"
proof -
  let ?hpa = "\<lparr>res_kind = HorizontalPodAutoscaler,
       res_name = helmReleaseName pr @ ''-deployment'',
       res_hpa = Some \<lparr>maxReplicas = (if gpu_requested m then 1 else 10),
                       metric_resource = ''cpu'',
                       averageUtilization = 50,
                       metric_target_type = ''Utilization'',
                       minReplicas = 1,
                       scaleTargetRef = (Deployment, helmReleaseName pr @ ''-deployment'')\<rparr>,
       res_claims = []\<rparr>"
  have one: "filter (\<lambda>r. res_kind r = HorizontalPodAutoscaler)
     (generated_topology ctx pr m agentImg frontendImg) = [?hpa]"
    by (simp add: generated_topology_def chart_templates_def make_values_def Let_def
      deployment_yaml_def hpa_yaml_def service_yaml_def ingress_yaml_def www_ingress_yaml_def
      mysql_statefulset_yaml_def mongo_statefulset_yaml_def redis_yaml_def plain_def
      agent_pvc_yaml_def hpaMaxReplicas_def)
  have "?hpa \<in> set (filter (\<lambda>r. res_kind r = HorizontalPodAutoscaler)
                     (generated_topology ctx pr m agentImg frontendImg))"
    unfolding one by simp
  then have "?hpa \<in> set (generated_topology ctx pr m agentImg frontendImg)"
    by simp
  then have applied: "?hpa \<in> set (applied_topology ctx pr m agentImg frontendImg)"
    using generated_is_applied by blast
  have gpu: "check_target ctx dp pr m sn w =
        Continue ()
          (if truthy sn then (set_service_name (dep_id dp) (or_else sn []) (fst w), snd w)
           else w)"
    if h: "gpu_requested m \<and> GPU_ENABLED ctx = Some ''true'' \<and>
      find_deployConfig m pr = Some t \<and> project_uuid pr \<noteq> [] \<and>
      (\<not> truthy (target_network t) \<or> target_network t = Some (network pr))"
  proof -
    from h have "projectID t = Some (project_uuid pr)"
      by (auto simp: find_deployConfig_def first_where_def find_Some_iff split: option.splits)
    with h show ?thesis
      by (auto simp: check_target_def Let_def truthy_def)
  qed
  from one applied gpu show ?thesis by blast
qed

theorem autoscaler_bounds_witness:
  "gpu_requested (AgentManifest.truncate gpu_manifest) \<and>
   map (\<lambda>r. map_option maxReplicas (res_hpa r))
     (filter (\<lambda>r. res_kind r = HorizontalPodAutoscaler)
        (generated_topology (node gpu_manifest) funded_project
           (AgentManifest.truncate gpu_manifest) ''registry/agent:d1'' None)) = [Some 1] \<and>
   check_target (node gpu_manifest) example_deploy funded_project
     (AgentManifest.truncate gpu_manifest) None (upload_db, []) = Continue () (upload_db, [])"
proof -
  let ?m = "AgentManifest.truncate gpu_manifest"
  have g: "gpu_requested ?m"
    by (simp add: gpu_requested_def AgentManifest.truncate_def gpu_manifest_def
        example_manifest_def truthy_def)
  have e: "GPU_ENABLED (node gpu_manifest) = Some ''true''"
    by (simp add: node_def)
  have f: "find_deployConfig ?m funded_project = Some mainnet_target"
    by (simp add: find_deployConfig_def AgentManifest.truncate_def gpu_manifest_def
        example_manifest_def first_where_def mainnet_target_def funded_project_def
        example_project_def)
  have u: "project_uuid funded_project \<noteq> []"
    "target_network mainnet_target = Some (network funded_project)"
    by (simp_all add: funded_project_def example_project_def mainnet_target_def)
  from autoscaler_bounds[where m = ?m and ctx = "node gpu_manifest" and pr = funded_project
      and t = mainnet_target and dp = example_deploy and sn = None and w = "(upload_db, [])"
      and agentImg = "''registry/agent:d1''" and frontendImg = None] g e f u
  show ?thesis by (simp add: truthy_def)
qed


subsection \<open>Evaluating the handler on concrete inputs\<close>

lemmas example_defs =
  node_def example_manifest_def example_request_def upload_db_def example_db_def
  funded_project_def example_project_def example_deploy_def example_user_def example_agent_def
  mainnet_target_def testnet_target_def

lemmas handler_defs =
  selector_message_def upload_def upload_try_def receive_def check_request_def store_and_extract_def
  load_manifest_def read_manifest_def select_service_def check_target_def build_images_def
  build_agent_def write_agent_dockerfile_def build_frontend_def apply_release_def fund_key_def
  generate_chart_def deploy_release_def respond_def on_error_def runCmd_def execSync_def
  command_failed_def no_options_def emit_def logStep_def insert_log_def set_file_path_def
  set_service_name_def path_join_def first_where_def truthy_def or_else_def isV2Manifest_def
  gpu_requested_def find_deployConfig_def registryHost_def helm_cmd_def rollout_cmd_def
  helmReleaseName_def namespace_def make_values_def chart_templates_def useStorage_def flag_def
  no_target_message_def network_mismatch_message_def AgentManifest.truncate_def

lemma example_receive:
  "\<exists>w1. receive (node m) example_request (upload_db, []) =
          Continue (example_deploy, funded_project, ''/tmp/build_d1'') w1"
  by (simp add: receive_def check_request_def store_and_extract_def runCmd_def execSync_def
      no_options_def emit_def logStep_def insert_log_def set_file_path_def path_join_def
      first_where_def node_def example_request_def upload_db_def example_db_def
      funded_project_def example_project_def example_deploy_def Let_def)

lemma example_load_v1:
  assumes "schema m = ''mandala-agent''" and "schemaVersion m \<noteq> ''2.0''"
  shows "load_manifest (node m) example_request example_deploy ''/tmp/build_d1'' w =
         Continue (AgentManifest.truncate m, None) w"
  using assms
  by (simp add: load_manifest_def read_manifest_def select_service_def isV2Manifest_def node_def
      Let_def)


subsection \<open>Templates left in the chart directory\<close>

lemma storage_upload_leaves_claim:
  "filter (\<lambda>(file, t). file \<notin> set (map fst (chart_templates funded_project
       (AgentManifest.truncate example_manifest))))
     (chart_directory (node storage_manifest) funded_project
       (AgentManifest.truncate storage_manifest)) =
   [(''agent-pvc.yaml'', agent_pvc_yaml)]"
  by (simp add: chart_directory_def chart_templates_def node_def useStorage_def truthy_def
      AgentManifest.truncate_def storage_manifest_def example_manifest_def
      funded_project_def example_project_def)

text \<open>
  C3 does not hold of the handler. A deployment is uploaded with storage declared, and
  then again, to the same deployment id, with a manifest that has no database flag and
  declares no storage. The first upload writes \<open>agent-pvc.yaml\<close>; the second writes the
  other templates anew, does not write that file and removes nothing, and succeeds. What
  Helm applies for the second upload is the four resources of the release and the
  PersistentVolumeClaim the first upload left behind.
\<close>

theorem stale_volume_claim_is_applied:
  "useStorage (AgentManifest.truncate storage_manifest) \<and>
   WriteFile ''/tmp/build_d1/helm/templates/agent-pvc.yaml'' \<in>
     set (snd (snd (upload (node storage_manifest) example_request upload_db))) \<and>
   databases (AgentManifest.truncate example_manifest) = None \<and>
   storage (AgentManifest.truncate example_manifest) = None \<and>
   fst (upload second_upload example_request after_first_upload) =
     Response 200 [(''message'', ''Deployment completed successfully''),
                   (''agentUrl'', ''agent.c0ffee.example.org'')] \<and>
   WriteFile ''/tmp/build_d1/helm/templates/agent-pvc.yaml'' \<notin>
     set (snd (snd (upload second_upload example_request after_first_upload))) \<and>
   map (\<lambda>r. (res_kind r, res_name r))
     (applied_topology second_upload funded_project
        (AgentManifest.truncate example_manifest)
        ''mandala-registry:5000/mandala-project-c0ffee/agent:d1'' None) =
     [(PersistentVolumeClaim, ''mandala-project-c0ffee-agent-pvc''),
      (Deployment, ''mandala-project-c0ffee-deployment''),
      (HorizontalPodAutoscaler, ''mandala-project-c0ffee-deployment''),
      (Service, ''mandala-project-c0ffee-service''),
      (Ingress, ''mandala-project-c0ffee-ingress'')]"
proof -
  have first: "useStorage (AgentManifest.truncate storage_manifest) \<and>
      WriteFile ''/tmp/build_d1/helm/templates/agent-pvc.yaml'' \<in>
        set (snd (snd (upload (node storage_manifest) example_request upload_db)))"
    by (simp add: handler_defs example_defs storage_manifest_def Let_def)
  have manifest: "databases (AgentManifest.truncate example_manifest) = None \<and>
      storage (AgentManifest.truncate example_manifest) = None"
    by (simp add: AgentManifest.truncate_def example_manifest_def)
  have db: "after_first_upload =
      upload_db\<lparr>logs := logs after_first_upload, deploys := deploys after_first_upload\<rparr>"
    "deploys after_first_upload =
      [example_deploy\<lparr>file_path := Some ''/tmp/artifact_d1.tgz''\<rparr>]"
    unfolding after_first_upload_def
    by (simp_all add: handler_defs example_defs storage_manifest_def Let_def)
  have second: "fst (upload second_upload example_request after_first_upload) =
      Response 200 [(''message'', ''Deployment completed successfully''),
                    (''agentUrl'', ''agent.c0ffee.example.org'')] \<and>
    WriteFile ''/tmp/build_d1/helm/templates/agent-pvc.yaml'' \<notin>
      set (snd (snd (upload second_upload example_request after_first_upload)))"
    apply (subst (1 2) db(1))
    apply (simp add: db(2) second_upload_def handler_defs example_defs Let_def)
    done
  have left: "chart_directory second_upload funded_project
      (AgentManifest.truncate example_manifest) =
    (''agent-pvc.yaml'', agent_pvc_yaml) #
    chart_templates funded_project (AgentManifest.truncate example_manifest)"
    unfolding chart_directory_def[of second_upload]
    by (simp add: second_upload_def storage_upload_leaves_claim del: set_map)
  have applied: "map (\<lambda>r. (res_kind r, res_name r))
     (applied_topology second_upload funded_project
        (AgentManifest.truncate example_manifest)
        ''mandala-registry:5000/mandala-project-c0ffee/agent:d1'' None) =
     [(PersistentVolumeClaim, ''mandala-project-c0ffee-agent-pvc''),
      (Deployment, ''mandala-project-c0ffee-deployment''),
      (HorizontalPodAutoscaler, ''mandala-project-c0ffee-deployment''),
      (Service, ''mandala-project-c0ffee-service''),
      (Ingress, ''mandala-project-c0ffee-ingress'')]"
    unfolding applied_topology_def left
    by (simp add: chart_templates_def make_values_def useStorage_def
        truthy_def flag_def helmReleaseName_def deployment_yaml_def hpa_yaml_def
        service_yaml_def ingress_yaml_def mysql_statefulset_yaml_def
        mongo_statefulset_yaml_def redis_yaml_def agent_pvc_yaml_def plain_def
        AgentManifest.truncate_def example_manifest_def funded_project_def
        example_project_def Let_def)
  from first manifest second applied show ?thesis by blast
qed

subsection \<open>Deployment targets\<close>

lemma network_mismatch_is_not_no_target:
  "network_mismatch_message a b \<noteq> no_target_message"
  by (simp add: network_mismatch_message_def no_target_message_def)

lemma receive_builds_nothing:
  assumes "receive ctx req (d, []) = Continue x w1"
  shows "filter is_build (snd w1) = []"
  using quiet_receive[of "(d, [])" ctx req] assms by (simp add: quiet_def)

lemma load_manifest_builds_nothing:
  assumes "load_manifest ctx req dp dir w1 = Continue x w2"
  shows "filter is_build (snd w2) = filter is_build (snd w1)"
  using quiet_load_manifest[of w1 ctx req dp dir] assms by (simp add: quiet_def)

text \<open>
  C5, as stated, fails: the manifest declares two targets for this project, the first on
  testnet and the second on mainnet, the project's network. The second matches tenant id
  and network, yet the upload is refused with the network-mismatch error, because only the
  first target with this project's id is looked at.
\<close>

theorem mismatching_first_target_counterexample:
  "deployments two_target_manifest = Some [testnet_target, mainnet_target] \<and>
   provider mainnet_target = ''mandala'' \<and>
   projectID mainnet_target = Some (project_uuid funded_project) \<and>
   target_network mainnet_target = Some (network funded_project) \<and>
   fst (upload (node two_target_manifest) example_request upload_db) =
     Response 400 [(''error'',
       ''Network mismatch: Project is on mainnet but deployment config specifies testnet'')]"
  by (simp add: handler_defs example_defs two_target_manifest_def Let_def)

text \<open>
  C5, amended: target validation looks only at the first declared target whose provider is
  \<open>mandala\<close> and whose project id is this tenant's. It passes when that target declares no
  network or the tenant's network. When that target declares another network the upload is
  answered 400 with the network-mismatch message; when there is no such target it is
  answered 400 with the no-matching-target message, and the two messages are never equal.
  Both end the request with no image build or push started.
\<close>

theorem target_validation_first_match:
  assumes recv: "receive ctx req (d, []) = Continue (dp, pr, dir) w1"
    and load: "load_manifest ctx req dp dir w1 = Continue (m, sn) w2"
    and gpu: "\<not> (gpu_requested m \<and> GPU_ENABLED ctx \<noteq> Some ''true'')"
    and uuid: "project_uuid pr \<noteq> []"
  shows "(case find_deployConfig m pr of
            None \<Rightarrow>
              upload ctx req d =
                (Response 400 [(''error'', no_target_message)],
                 fst (logStep dp no_target_message w2), snd w2)
          | Some t \<Rightarrow>
              if truthy (target_network t) \<and> target_network t \<noteq> Some (network pr)
              then upload ctx req d =
                     (Response 400
                        [(''error'', network_mismatch_message (network pr)
                                       (or_else (target_network t) []))],
                      fst (logStep dp (network_mismatch_message (network pr)
                                         (or_else (target_network t) [])) w2),
                      snd w2)
              else check_target ctx dp pr m sn w2 =
                     Continue ()
                       (if truthy sn
                        then (set_service_name (dep_id dp) (or_else sn []) (fst w2), snd w2)
                        else w2)) \<and>
         filter is_build (snd w2) = [] \<and>
         (\<forall>a b. network_mismatch_message a b \<noteq> no_target_message)"
proof (intro conjI allI)
  show "filter is_build (snd w2) = []"
    using receive_builds_nothing[OF recv] load_manifest_builds_nothing[OF load] by simp
next
  fix a b show "network_mismatch_message a b \<noteq> no_target_message"
    by (rule network_mismatch_is_not_no_target)
next
  have chain: "upload_try ctx req (d, []) =
          and_then (check_target ctx dp pr m sn w2) (\<lambda>_ w3.
          and_then (build_images ctx req dp pr m dir w3) (\<lambda>(agentImg, frontendImg) w4.
          apply_release ctx req dp pr m dir agentImg frontendImg w4))"
    by (simp add: upload_try_def recv load)
  show "case find_deployConfig m pr of
            None \<Rightarrow>
              upload ctx req d =
                (Response 400 [(''error'', no_target_message)],
                 fst (logStep dp no_target_message w2), snd w2)
          | Some t \<Rightarrow>
              if truthy (target_network t) \<and> target_network t \<noteq> Some (network pr)
              then upload ctx req d =
                     (Response 400
                        [(''error'', network_mismatch_message (network pr)
                                       (or_else (target_network t) []))],
                      fst (logStep dp (network_mismatch_message (network pr)
                                         (or_else (target_network t) [])) w2),
                      snd w2)
              else check_target ctx dp pr m sn w2 =
                     Continue ()
                       (if truthy sn
                        then (set_service_name (dep_id dp) (or_else sn []) (fst w2), snd w2)
                        else w2)"
  proof (cases "find_deployConfig m pr")
    case None
    with gpu show ?thesis
      by (auto simp: upload_def chain check_target_def Let_def prod_eq_iff)
  next
    case (Some t)
    then have "projectID t = Some (project_uuid pr)"
      by (auto simp: find_deployConfig_def first_where_def find_Some_iff split: option.splits)
    with uuid have p: "truthy (projectID t)" by (simp add: truthy_def)
    from Some p gpu show ?thesis
      by (auto simp: upload_def chain check_target_def Let_def prod_eq_iff)
  qed
qed

theorem target_validation_first_match_witness:
  "find_deployConfig (AgentManifest.truncate two_target_manifest) funded_project =
     Some testnet_target \<and>
   fst (upload (node two_target_manifest) example_request upload_db) =
     Response 400 [(''error'', network_mismatch_message ''mainnet'' ''testnet'')]"
proof -
  let ?m = "AgentManifest.truncate two_target_manifest"
  obtain w1 where recv: "receive (node two_target_manifest) example_request (upload_db, []) =
      Continue (example_deploy, funded_project, ''/tmp/build_d1'') w1"
    using example_receive by blast
  have load: "load_manifest (node two_target_manifest) example_request example_deploy
      ''/tmp/build_d1'' w1 = Continue (?m, None) w1"
    by (rule example_load_v1) (simp_all add: two_target_manifest_def example_manifest_def)
  have gpu: "\<not> (gpu_requested ?m \<and> GPU_ENABLED (node two_target_manifest) \<noteq> Some ''true'')"
    by (simp add: node_def)
  have uuid: "project_uuid funded_project \<noteq> []"
    by (simp add: funded_project_def example_project_def)
  have f: "find_deployConfig ?m funded_project = Some testnet_target"
    by (simp add: find_deployConfig_def AgentManifest.truncate_def two_target_manifest_def
        example_manifest_def first_where_def testnet_target_def mainnet_target_def
        funded_project_def example_project_def)
  have n: "truthy (target_network testnet_target)"
    "target_network testnet_target \<noteq> Some (network funded_project)"
    "or_else (target_network testnet_target) [] = ''testnet''"
    "network funded_project = ''mainnet''"
    by (simp_all add: truthy_def or_else_def testnet_target_def mainnet_target_def
        funded_project_def example_project_def)
  from target_validation_first_match[OF recv load gpu uuid] f n
  show ?thesis by simp
qed

subsection \<open>Multi-service manifests\<close>

lemma upload_builds:
  "filter is_build (snd (snd (upload ctx req d))) =
   filter is_build (snd (world_of (upload_try ctx req (d, []))))"
  by (cases "upload_try ctx req (d, [])")
     (auto simp: upload_def on_error_def Let_def is_build_def split: option.splits)

lemma selected_service_has_no_agent:
  assumes "load_manifest ctx req dp dir w = Continue (m, sn) w2"
    and "manifest_json ctx = Inr raw" and "isV2Manifest raw" and "services raw = Some svcs"
    and "\<not> truthy (requested_service req) \<or> svcs (or_else (requested_service req) []) = None"
  shows "agent m = None"
  using assms
  by (auto simp: load_manifest_def read_manifest_def select_service_def Let_def
      services_lookup_def service_manifest_def
      split: if_splits service_lookup.splits option.splits)

text \<open>
  C6: when the manifest is of the multi-service shape and the request carries no service
  name, or one that is not a key of the manifest's services map, the upload starts no
  image build and no push. If besides the request got as far as reading a manifest with
  the right schema marker, and the name is missing or is not a member of
  \<open>Object.prototype\<close> either, the answer is 400 with the message that a v2 manifest
  requires a service name.
\<close>

theorem v2_needs_service_selector:
  assumes json: "manifest_json ctx = Inr raw"
    and v2: "isV2Manifest raw"
    and svcs: "services raw = Some svcs"
    and sel: "\<not> truthy (requested_service req) \<or>
              svcs (or_else (requested_service req) []) = None"
  shows "filter is_build (snd (snd (upload ctx req d))) = [] \<and>
         (\<forall>dp pr dir w1.
            receive ctx req (d, []) = Continue (dp, pr, dir) w1 \<and>
            fs_exists ctx (path_join dir ''agent-manifest.json'') \<and>
            schema raw = ''mandala-agent'' \<and>
            (\<not> truthy (requested_service req) \<or>
             or_else (requested_service req) [] \<notin> set object_prototype_keys) \<longrightarrow>
            upload ctx req d =
              (Response 400 [(''error'', selector_message)],
               fst (logStep dp selector_message w1), snd w1))"
proof (intro conjI allI impI)
  have "quiet (d, []) (upload_try ctx req (d, []))"
    unfolding upload_try_def
  proof (rule quiet_and_then[OF quiet_receive], clarify)
    fix dp pr dir w1
    show "quiet w1 (and_then (load_manifest ctx req dp dir w1) (\<lambda>(manifest, serviceName) w2.
            and_then (check_target ctx dp pr manifest serviceName w2) (\<lambda>_ w3.
            and_then (build_images ctx req dp pr manifest dir w3) (\<lambda>(agentImg, frontendImg).
            apply_release ctx req dp pr manifest dir agentImg frontendImg))))"
    proof (rule quiet_and_then[OF quiet_load_manifest], clarify)
      fix m sn w2
      assume l: "load_manifest ctx req dp dir w1 = Continue (m, sn) w2"
      have a: "agent m = None"
        by (rule selected_service_has_no_agent[OF l json v2 svcs sel])
      show "quiet w2 (and_then (check_target ctx dp pr m sn w2) (\<lambda>_ w3.
              and_then (build_images ctx req dp pr m dir w3) (\<lambda>(agentImg, frontendImg).
              apply_release ctx req dp pr m dir agentImg frontendImg)))"
      proof (rule quiet_and_then[OF quiet_check_target])
        fix u w3
        show "quiet w3 (and_then (build_images ctx req dp pr m dir w3)
                (\<lambda>(agentImg, frontendImg).
                   apply_release ctx req dp pr m dir agentImg frontendImg))"
          using a by (simp add: build_images_def build_agent_def)
      qed
    qed
  qed
  then show "filter is_build (snd (snd (upload ctx req d))) = []"
    by (simp add: upload_builds quiet_def)
next
  fix dp pr dir w1
  assume h: "receive ctx req (d, []) = Continue (dp, pr, dir) w1 \<and>
            fs_exists ctx (path_join dir ''agent-manifest.json'') \<and>
            schema raw = ''mandala-agent'' \<and>
            (\<not> truthy (requested_service req) \<or>
             or_else (requested_service req) [] \<notin> set object_prototype_keys)"
  have "load_manifest ctx req dp dir w1 =
          Reply 400 [(''error'', selector_message)] (logStep dp selector_message w1)"
    using h json v2 svcs sel
    by (auto simp: load_manifest_def read_manifest_def select_service_def Let_def
        services_lookup_def)
  with h show "upload ctx req d =
              (Response 400 [(''error'', selector_message)],
               fst (logStep dp selector_message w1), snd w1)"
    by (simp add: upload_def upload_try_def prod_eq_iff)
qed

theorem v2_needs_service_selector_witness:
  "isV2Manifest v2_manifest \<and> \<not> truthy (requested_service example_request) \<and>
   filter is_build (snd (snd (upload (node v2_manifest) example_request upload_db))) = [] \<and>
   fst (upload (node v2_manifest) example_request upload_db) =
     Response 400 [(''error'', selector_message)]"
proof -
  have json: "manifest_json (node v2_manifest) = Inr v2_manifest"
    by (simp add: node_def)
  have v2: "isV2Manifest v2_manifest"
    by (simp add: isV2Manifest_def v2_manifest_def)
  have svcs: "services v2_manifest = Some [''web'' \<mapsto> example_service]"
    by (simp add: v2_manifest_def)
  have sel: "\<not> truthy (requested_service example_request)"
    by (simp add: requested_service_def example_request_def truthy_def)
  obtain w1 where recv: "receive (node v2_manifest) example_request (upload_db, []) =
      Continue (example_deploy, funded_project, ''/tmp/build_d1'') w1"
    using example_receive by blast
  have fs: "fs_exists (node v2_manifest) (path_join ''/tmp/build_d1'' ''agent-manifest.json'')"
    "schema v2_manifest = ''mandala-agent''"
    by (simp_all add: node_def v2_manifest_def example_manifest_def)
  from v2_needs_service_selector[OF json v2 svcs, of example_request upload_db] sel
  have a: "filter is_build (snd (snd (upload (node v2_manifest) example_request upload_db))) = []"
    and b: "\<And>dp pr dir w1.
            receive (node v2_manifest) example_request (upload_db, []) = Continue (dp, pr, dir) w1 \<and>
            fs_exists (node v2_manifest) (path_join dir ''agent-manifest.json'') \<and>
            schema v2_manifest = ''mandala-agent'' \<and>
            (\<not> truthy (requested_service example_request) \<or>
             or_else (requested_service example_request) [] \<notin> set object_prototype_keys) \<Longrightarrow>
            upload (node v2_manifest) example_request upload_db =
              (Response 400 [(''error'', selector_message)],
               fst (logStep dp selector_message w1), snd w1)"
    by blast+
  from b[of example_deploy funded_project "''/tmp/build_d1''" w1] recv fs sel
  have "fst (upload (node v2_manifest) example_request upload_db) =
     Response 400 [(''error'', selector_message)]"
    by simp
  with a v2 sel show ?thesis by simp
qed

subsection \<open>Failing commands\<close>

lemma ran_ok_Nil [simp]: "ran_ok ctx []"
  by (simp add: ran_ok_def)

lemma ran_ok_append [simp]: "ran_ok ctx (xs @ ys) = (ran_ok ctx xs \<and> ran_ok ctx ys)"
  by (auto simp: ran_ok_def)

lemma ran_ok_Cons [simp]:
  "ran_ok ctx (e # es) =
     ((case e of Exec cmd opts \<Rightarrow> \<exists>out. child ctx cmd = Exits_ok out | _ \<Rightarrow> True) \<and>
      ran_ok ctx es)"
  by (auto simp: ran_ok_def split: effect.splits)

lemma settled_simps [simp]:
  "settled ctx (Continue a w) = ran_ok ctx (snd w)"
  "settled ctx (Reply c b w) = ran_ok ctx (snd w)"
  by (simp_all add: settled_def)

lemma settled_Throws_quiet: "ran_ok ctx (snd w) \<Longrightarrow> settled ctx (Throws m w)"
  by (simp add: settled_def)

lemma settled_and_then:
  assumes "settled ctx s"
    and "\<And>a w. s = Continue a w \<Longrightarrow> ran_ok ctx (snd w) \<Longrightarrow> settled ctx (f a w)"
  shows "settled ctx (and_then s f)"
  using assms by (cases s) (auto simp: settled_def)

lemma settled_runCmd:
  assumes "ran_ok ctx (snd w)" and "timeout opts = None"
  shows "settled ctx (runCmd ctx cmd opts w)"
  using assms
  by (auto simp: runCmd_def execSync_def settled_def split: cmd_outcome.splits)

lemma settled_check_request:
  "ran_ok ctx (snd w) \<Longrightarrow> settled ctx (check_request ctx req w)"
  by (simp add: check_request_def split: option.splits)

lemma settled_store_and_extract:
  assumes "ran_ok ctx (snd w)"
  shows "settled ctx (store_and_extract ctx req dp w)"
  unfolding store_and_extract_def Let_def
  by (rule settled_and_then, rule settled_runCmd) (use assms in \<open>simp_all add: no_options_def\<close>)

lemma settled_receive:
  assumes "ran_ok ctx (snd w)"
  shows "settled ctx (receive ctx req w)"
  unfolding receive_def
  by (rule settled_and_then[OF settled_check_request[OF assms]])
     (auto intro!: settled_and_then settled_store_and_extract)

lemma settled_read_manifest:
  "ran_ok ctx (snd w) \<Longrightarrow> settled ctx (read_manifest ctx dp dir w)"
  by (simp add: read_manifest_def Let_def settled_Throws_quiet split: sum.splits)

lemma settled_select_service:
  "ran_ok ctx (snd w) \<Longrightarrow> settled ctx (select_service req dp raw w)"
  by (simp add: select_service_def Let_def settled_Throws_quiet
      split: option.splits service_lookup.splits)

lemma settled_load_manifest:
  assumes "ran_ok ctx (snd w)"
  shows "settled ctx (load_manifest ctx req dp dir w)"
  unfolding load_manifest_def
  by (rule settled_and_then[OF settled_read_manifest[OF assms]]) (rule settled_select_service)

lemma settled_check_target:
  "ran_ok ctx (snd w) \<Longrightarrow> settled ctx (check_target ctx dp pr m sn w)"
  by (simp add: check_target_def Let_def)

lemma settled_write_agent_dockerfile:
  "ran_ok ctx (snd w) \<Longrightarrow> settled ctx (write_agent_dockerfile ctx dp a dir bdir w)"
  by (simp add: write_agent_dockerfile_def Let_def)

lemma settled_build_agent:
  assumes "ran_ok ctx (snd w)"
  shows "settled ctx (build_agent ctx req dp pr m dir w)"
proof (cases "agent m")
  case None
  with assms show ?thesis by (simp add: build_agent_def settled_Throws_quiet)
next
  case (Some a)
  show ?thesis
    unfolding build_agent_def Let_def Some option.case
    using assms
    by (auto intro!: settled_and_then settled_write_agent_dockerfile settled_runCmd
        simp: no_options_def)
qed

lemma settled_build_frontend:
  assumes "ran_ok ctx (snd w)"
  shows "settled ctx (build_frontend ctx req dp pr m dir w)"
proof (cases "frontend m")
  case None
  with assms show ?thesis by (simp add: build_frontend_def)
next
  case (Some f)
  show ?thesis
    unfolding build_frontend_def Let_def Some option.case
    using assms
    by (auto intro!: settled_and_then settled_runCmd)
qed

lemma settled_build_images:
  assumes "ran_ok ctx (snd w)"
  shows "settled ctx (build_images ctx req dp pr m dir w)"
  unfolding build_images_def
  by (rule settled_and_then[OF settled_build_agent[OF assms]])
     (auto intro!: settled_and_then settled_build_frontend)

lemma ran_ok_chart_files:
  "ran_ok ctx (snd (fold (\<lambda>(file, t). emit (WriteFile (path_join dir file))) ts w)) =
   ran_ok ctx (snd w)"
  by (induction ts arbitrary: w) (auto simp: case_prod_unfold)

lemma settled_fund_key:
  "ran_ok ctx (snd w) \<Longrightarrow> settled ctx (fund_key ctx pr w)"
  by (simp add: fund_key_def)

lemma settled_generate_chart:
  "ran_ok ctx (snd w) \<Longrightarrow> settled ctx (generate_chart ctx dp pr m dir a f w)"
  by (simp add: generate_chart_def Let_def ran_ok_chart_files)

lemma settled_deploy_release:
  assumes "ran_ok ctx (snd w)"
  shows "settled ctx (deploy_release ctx req dp pr dir w)"
  unfolding deploy_release_def
  using assms
  by (auto intro!: settled_and_then settled_runCmd simp: no_options_def)

lemma settled_respond:
  "ran_ok ctx (snd w) \<Longrightarrow> settled ctx (respond dp pr m v w)"
  by (simp add: respond_def Let_def)

lemma settled_apply_release:
  assumes "ran_ok ctx (snd w)"
  shows "settled ctx (apply_release ctx req dp pr m dir a f w)"
  unfolding apply_release_def
  by (rule settled_and_then[OF settled_fund_key[OF assms]])
     (auto intro!: settled_and_then settled_generate_chart settled_deploy_release
        settled_respond)

lemma settled_upload_try: "settled ctx (upload_try ctx req (d, []))"
  unfolding upload_try_def
  by (rule settled_and_then[OF settled_receive])
     (auto intro!: settled_and_then settled_load_manifest settled_check_target
        settled_build_images settled_apply_release)

lemma throws_after_lookup:
  assumes "upload_try ctx req (d, []) = Throws m w"
  shows "\<exists>dp pr. first_where (\<lambda>x. deployment_uuid x = deploymentId req) (deploys d) = Some dp \<and>
                 first_where (\<lambda>p. id p = dep_project_id dp) (projects d) = Some pr"
  using assms
  by (auto simp: upload_try_def receive_def check_request_def split: option.splits if_splits)

lemma upload_after_throw:
  assumes "upload_try ctx req (d, []) = Throws m w"
  shows "fst (upload ctx req d) = Response 500 [(''error'', ''Error handling upload: '' @ m)]"
    and "message (last (logs (fst (snd (upload ctx req d))))) = ''Error handling upload: '' @ m"
  using throws_after_lookup[OF assms] assms
  by (auto simp: upload_def on_error_def Let_def insert_log_def)

lemma upload_execs:
  assumes "Exec cmd opts \<in> set (snd (snd (upload ctx req d)))"
  shows "Exec cmd opts \<in> set (snd (world_of (upload_try ctx req (d, []))))"
  using assms
  by (cases "upload_try ctx req (d, [])")
     (auto simp: upload_def on_error_def Let_def split: option.splits)

lemma failed_command_throws:
  assumes ex: "Exec cmd opts \<in> set (snd (snd (upload ctx req d)))"
    and fail: "child ctx cmd = Exits_error e_stderr e_stdout e_message"
  shows "\<exists>w. upload_try ctx req (d, []) =
              Throws (command_failed cmd e_stderr e_stdout e_message) w"
proof -
  let ?T = "upload_try ctx req (d, [])"
  have st: "settled ctx ?T" by (rule settled_upload_try)
  have mem: "Exec cmd opts \<in> set (snd (world_of ?T))" by (rule upload_execs[OF ex])
  have bad: "\<not> ran_ok ctx (snd (world_of ?T))"
    using mem fail by (auto simp: ran_ok_def)
  show ?thesis
  proof (cases ?T)
    case (Continue a w)
    with st bad show ?thesis by simp
  next
    case (Reply c b w)
    with st bad show ?thesis by simp
  next
    case (Throws m w)
    with st bad obtain pre cmd' opts' e out msg where
      w: "snd w = pre @ [Exec cmd' opts']" and pre: "ran_ok ctx pre"
      and c: "child ctx cmd' = Exits_error e out msg" and m: "m = command_failed cmd' e out msg"
      by (auto simp: settled_def)
    from mem Throws w have "Exec cmd opts \<in> set pre \<or> cmd = cmd'" by auto
    with pre fail have "cmd = cmd'" by (auto simp: ran_ok_def)
    with c fail m Throws show ?thesis by simp
  next
    case (Hangs w)
    with st obtain pre cmd' opts' where
      w: "snd w = pre @ [Exec cmd' opts']" and pre: "ran_ok ctx pre"
      and c: "child ctx cmd' = Never_exits"
      by (auto simp: settled_def)
    from mem Hangs w have "Exec cmd opts \<in> set pre \<or> cmd = cmd'" by auto
    with pre fail c show ?thesis by (auto simp: ran_ok_def)
  qed
qed

text \<open>
  C7, as stated, fails: the agent image build fails and writes one line to its standard
  error; the body of the 500 response is the handler's prefix, the command, and that line.
\<close>

theorem build_output_in_response_counterexample:
  "child build_fails agent_build_cmd =
     Exits_error ''error: COPY secrets.env: no such file'' [] ''Command failed'' \<and>
   fst (upload build_fails example_request upload_db) =
     Response 500 [(''error'',
       ''Error handling upload: Command failed ('' @ agent_build_cmd @
       ''): error: COPY secrets.env: no such file'')]"
  by (simp add: handler_defs example_defs build_fails_def agent_build_cmd_def Let_def)

text \<open>
  C7, amended: when a command the handler has run fails (a build or a push in
  particular), the error message is \<open>Command failed (cmd):\<close> followed by the first 3000
  characters of its standard error, or if that is empty of its standard output, or if that
  is empty too by the error's own message; that message, behind
  \<open>Error handling upload:\<close>, is stored as the last row of the logs table and is also the
  body of the 500 response sent to the caller.
\<close>

theorem failed_command_output_reaches_caller:
  assumes "Exec cmd opts \<in> set (snd (snd (upload ctx req d)))"
    and "child ctx cmd = Exits_error e_stderr e_stdout e_message"
  shows "fst (upload ctx req d) =
           Response 500 [(''error'', ''Error handling upload: '' @
                          command_failed cmd e_stderr e_stdout e_message)] \<and>
         message (last (logs (fst (snd (upload ctx req d))))) =
           ''Error handling upload: '' @ command_failed cmd e_stderr e_stdout e_message \<and>
         command_failed cmd e_stderr e_stdout e_message =
           ''Command failed ('' @ cmd @ ''): '' @
           (if take 3000 e_stderr \<noteq> [] then take 3000 e_stderr
            else if take 3000 e_stdout \<noteq> [] then take 3000 e_stdout else e_message)"
proof -
  from failed_command_throws[OF assms] obtain w where
    "upload_try ctx req (d, []) = Throws (command_failed cmd e_stderr e_stdout e_message) w"
    by blast
  from upload_after_throw[OF this] show ?thesis
    by (simp add: command_failed_def Let_def)
qed

theorem failed_command_output_reaches_caller_witness:
  "Exec agent_build_cmd no_options \<in> set (snd (snd (upload build_fails example_request upload_db))) \<and>
   fst (upload build_fails example_request upload_db) =
     Response 500 [(''error'', ''Error handling upload: '' @
       command_failed agent_build_cmd ''error: COPY secrets.env: no such file'' []
         ''Command failed'')] \<and>
   message (last (logs (fst (snd (upload build_fails example_request upload_db))))) =
     ''Error handling upload: '' @
       command_failed agent_build_cmd ''error: COPY secrets.env: no such file'' []
         ''Command failed''"
proof -
  have ex: "Exec agent_build_cmd no_options \<in>
            set (snd (snd (upload build_fails example_request upload_db)))"
    by (simp add: handler_defs example_defs build_fails_def agent_build_cmd_def Let_def)
  have fail: "child build_fails agent_build_cmd =
     Exits_error ''error: COPY secrets.env: no such file'' [] ''Command failed''"
    by (simp add: build_fails_def)
  from failed_command_output_reaches_caller[OF ex fail] ex show ?thesis by blast
qed

subsection \<open>The rollout wait\<close>

lemma on_error_response:
  "fst (on_error req d m w) = Response 500 [(''error'', ''Error handling upload: '' @ m)]"
  by (simp add: on_error_def Let_def split: option.splits)

lemma on_error_effects: "set (snd w) \<subseteq> set (snd (snd (on_error req d m w)))"
  by (auto simp: on_error_def Let_def split: option.splits)

text \<open>
  C8, as stated, fails: every command of this deployment succeeds up to the apply, and
  \<open>kubectl rollout status\<close> never exits. The handler started it with no timeout, is still
  waiting on it, and has answered nothing: no bound ends the wait and no failure is
  reported.
\<close>

theorem rollout_wait_unbounded_counterexample:
  "child rollout_never_ends (rollout_cmd funded_project) = Never_exits \<and>
   fst (upload rollout_never_ends example_request upload_db) = NoResponse \<and>
   last (snd (snd (upload rollout_never_ends example_request upload_db))) =
     Exec (rollout_cmd funded_project) \<lparr>cwd = None, timeout = None\<rparr>"
proof -
  have c: "child rollout_never_ends (rollout_cmd funded_project) = Never_exits"
    by (simp add: rollout_never_ends_def)
  have r: "rollout_cmd funded_project =
      ''kubectl rollout status deployment/mandala-project-c0ffee-deployment -n mandala-project-c0ffee''"
    by (simp add: rollout_cmd_def helmReleaseName_def namespace_def funded_project_def
        example_project_def)
  have "fst (upload rollout_never_ends example_request upload_db) = NoResponse \<and>
   last (snd (snd (upload rollout_never_ends example_request upload_db))) =
     Exec ''kubectl rollout status deployment/mandala-project-c0ffee-deployment -n mandala-project-c0ffee''
       \<lparr>cwd = None, timeout = None\<rparr>"
    unfolding rollout_never_ends_def r
    by (simp add: handler_defs example_defs Let_def)
  with c r show ?thesis by simp
qed

text \<open>
  C8, amended: when the pipeline reaches the apply and the apply succeeds, the handler
  runs \<open>kubectl rollout status\<close> on the release's Deployment, synchronously and with no
  timeout of its own. The success response is sent when that command exits successfully;
  when it fails the deployment fails with a 500 whose message is that of the failed
  command; when it never exits the handler never answers.
\<close>

theorem rollout_wait_has_no_timeout:
  assumes recv: "receive ctx req (d, []) = Continue (dp, pr, dir) w1"
    and load: "load_manifest ctx req dp dir w1 = Continue (m, sn) w2"
    and target: "check_target ctx dp pr m sn w2 = Continue () w3"
    and build: "build_images ctx req dp pr m dir w3 = Continue (agentImg, frontendImg) w4"
    and helm: "child ctx (helm_cmd pr (path_join dir ''helm'')) = Exits_ok out"
  shows "Exec (rollout_cmd pr) \<lparr>cwd = None, timeout = None\<rparr> \<in>
           set (snd (snd (upload ctx req d))) \<and>
         (case child ctx (rollout_cmd pr) of
            Exits_ok output \<Rightarrow>
              (\<exists>rest. fst (upload ctx req d) =
                 Response 200 ((''message'', ''Deployment completed successfully'') # rest))
          | Exits_error e_stderr e_stdout e_message \<Rightarrow>
              fst (upload ctx req d) =
                Response 500 [(''error'', ''Error handling upload: '' @
                  command_failed (rollout_cmd pr) e_stderr e_stdout e_message)]
          | Never_exits \<Rightarrow> fst (upload ctx req d) = NoResponse)"
proof -
  let ?c = "generate_chart ctx dp pr m dir agentImg frontendImg
              (if requires_blockchain_funding pr \<and> key_balance ctx < 100
               then emit (FundKey (private_key pr) (network pr)) w4 else w4)"
  obtain v w5 where chart: "?c = Continue v w5"
    by (simp add: generate_chart_def Let_def)
  let ?w6 = "logStep dp (''Helm release '' @ helmReleaseName pr @
                    '' deployed for project '' @ project_uuid pr)
               (emit (Exec (helm_cmd pr (path_join dir ''helm'')) no_options) w5)"
  have h: "runCmd ctx (helm_cmd pr (path_join dir ''helm'')) no_options w5 =
           Continue () (emit (Exec (helm_cmd pr (path_join dir ''helm'')) no_options) w5)"
    using helm by (simp add: runCmd_def execSync_def)
  have chain: "upload_try ctx req (d, []) =
      and_then
        (and_then (runCmd ctx (rollout_cmd pr) no_options ?w6) (\<lambda>_ w7.
           Continue ()
             (emit RefreshAdvertisement
               (logStep dp (''Project '' @ project_uuid pr @ '', release '' @
                  deploymentId req @ '' rolled out successfully.'') w7))))
        (\<lambda>_ w8. respond dp pr m v w8)"
    using chart h
    by (simp add: upload_try_def recv load target build apply_release_def fund_key_def
        deploy_release_def)
  show ?thesis
  proof (cases "child ctx (rollout_cmd pr)")
    case (Exits_ok so)
    then show ?thesis
      by (simp add: upload_def chain runCmd_def execSync_def respond_def Let_def no_options_def)
  next
    case (Exits_error e_stderr e_stdout e_message)
    then have "upload ctx req d =
        on_error req d (command_failed (rollout_cmd pr) e_stderr e_stdout e_message)
          (emit (Exec (rollout_cmd pr) no_options) ?w6)"
      by (simp add: upload_def chain runCmd_def execSync_def)
    with Exits_error show ?thesis
      using on_error_effects[of "emit (Exec (rollout_cmd pr) no_options) ?w6" req d
          "command_failed (rollout_cmd pr) e_stderr e_stdout e_message"]
      by (auto simp: on_error_response no_options_def)
  next
    case Never_exits
    then show ?thesis
      by (simp add: upload_def chain runCmd_def execSync_def no_options_def)
  qed
qed

theorem rollout_wait_has_no_timeout_witness:
  "child (node example_manifest) (helm_cmd funded_project (path_join ''/tmp/build_d1'' ''helm'')) =
     Exits_ok [] \<and>
   Exec (rollout_cmd funded_project) \<lparr>cwd = None, timeout = None\<rparr> \<in>
     set (snd (snd (upload (node example_manifest) example_request upload_db))) \<and>
   (\<exists>rest. fst (upload (node example_manifest) example_request upload_db) =
      Response 200 ((''message'', ''Deployment completed successfully'') # rest))"
proof -
  let ?ctx = "node example_manifest"
  let ?m = "AgentManifest.truncate example_manifest"
  obtain w1 where recv: "receive ?ctx example_request (upload_db, []) =
      Continue (example_deploy, funded_project, ''/tmp/build_d1'') w1"
    using example_receive by blast
  have load: "load_manifest ?ctx example_request example_deploy ''/tmp/build_d1'' w1 =
      Continue (?m, None) w1"
    by (rule example_load_v1) (simp_all add: example_manifest_def)
  have target: "check_target ?ctx example_deploy funded_project ?m None w1 = Continue () w1"
    by (simp add: check_target_def gpu_requested_def find_deployConfig_def first_where_def
        truthy_def AgentManifest.truncate_def example_manifest_def mainnet_target_def
        funded_project_def example_project_def Let_def)
  have "\<exists>w4. build_images ?ctx example_request example_deploy funded_project ?m
              ''/tmp/build_d1'' w1 =
            Continue (''mandala-registry:5000/mandala-project-c0ffee/agent:d1'', None) w4"
    by (simp add: build_images_def build_agent_def write_agent_dockerfile_def
        build_frontend_def runCmd_def execSync_def registryHost_def or_else_def truthy_def
        path_join_def node_def AgentManifest.truncate_def example_manifest_def
        example_agent_def example_request_def funded_project_def example_project_def Let_def)
  then obtain w4 where build: "build_images ?ctx example_request example_deploy funded_project ?m
              ''/tmp/build_d1'' w1 =
            Continue (''mandala-registry:5000/mandala-project-c0ffee/agent:d1'', None) w4"
    by blast
  have helm: "child ?ctx (helm_cmd funded_project (path_join ''/tmp/build_d1'' ''helm'')) =
      Exits_ok []"
    by (simp add: node_def)
  have ok: "child ?ctx (rollout_cmd funded_project) = Exits_ok []"
    by (simp add: node_def)
  from rollout_wait_has_no_timeout[OF recv load target build helm] ok helm
  show ?thesis by simp
qed


end
